theory Spec2Isabelle
  imports Complex_Main "HOL-Library.Char_ord" "HOL-Library.List_Lexorder"
begin

section \<open>Go values: errors, integers as text, query strings\<close>

text \<open>
  The client package (eight methods on \<open>*Client\<close>) and the demo handler of \<open>main.go\<close>
  are embedded here. Go strings are byte strings (\<open>string\<close>, a \<open>char list\<close>); Go's \<open>int\<close>
  is \<open>int\<close>, since the code only compares, prints and stores integers and never computes
  with them. Slices are lists: \<open>len\<close>, \<open>range\<close> and indexing do not tell a nil slice from
  an empty one.

  Every error the client returns is built by \<open>fmt.Errorf\<close>. With one \<open>%w\<close> verb the
  result is a \<open>*fmt.wrapError\<close>, which keeps the formatted message and the wrapped error;
  without \<open>%w\<close> it is an \<open>*errors.errorString\<close>, which keeps the message only. Errors that
  come out of the standard library (\<open>net/http\<close>, \<open>net/url\<close>, \<open>encoding/json\<close>, \<open>io\<close>) are
  \<open>libError\<close> with the name of their Go type and their message.
\<close>

datatype go_error =
    errorString string
  | wrapError string go_error
  | libError string string

fun Error :: "go_error \<Rightarrow> string" where
  "Error (errorString s) = s"
| "Error (wrapError msg err) = msg"
| "Error (libError tname msg) = msg"

fun Unwrap :: "go_error \<Rightarrow> go_error option" where
  "Unwrap (wrapError msg err) = Some err"
| "Unwrap (errorString s) = None"
| "Unwrap (libError tname msg) = None"

text \<open>The dynamic type of an error value: what \<open>errors.As\<close> or a type switch can see.\<close>

fun error_type :: "go_error \<Rightarrow> string" where
  "error_type (errorString s) = ''*errors.errorString''"
| "error_type (wrapError msg err) = ''*fmt.wrapError''"
| "error_type (libError tname msg) = tname"

text \<open>\<open>fmt.Errorf(prefix + "%w", err)\<close>: the message is the prefix followed by \<open>err.Error()\<close>.\<close>

definition Errorf_w :: "string \<Rightarrow> go_error \<Rightarrow> go_error" where
  "Errorf_w prefix err = wrapError (prefix @ Error err) err"

text \<open>\<open>strconv.Itoa\<close>, which is also what the verb \<open>%d\<close> prints for an \<open>int\<close>.\<close>

definition digit_char :: "nat \<Rightarrow> char" where
  "digit_char d = ''0123456789'' ! d"

fun dec_nat :: "nat \<Rightarrow> string" where
  "dec_nat n = (if n < 10 then [digit_char n] else dec_nat (n div 10) @ [digit_char (n mod 10)])"

declare dec_nat.simps [simp del]

definition Itoa :: "int \<Rightarrow> string" where
  "Itoa i = (if i < 0 then CHR ''-'' # dec_nat (nat (- i)) else dec_nat (nat i))"

text \<open>
  \<open>url.QueryEscape\<close>: letters, digits and \<open>- _ . ~\<close> stay, a space becomes \<open>+\<close>, every
  other byte becomes \<open>%XX\<close> in upper-case hexadecimal.
\<close>

definition upperhex :: "nat \<Rightarrow> char" where
  "upperhex n = ''0123456789ABCDEF'' ! n"

definition shouldEscape :: "char \<Rightarrow> bool" where
  "shouldEscape c =
     (let n = (of_char c :: nat) in
      if (97 \<le> n \<and> n \<le> 122) \<or> (65 \<le> n \<and> n \<le> 90) \<or> (48 \<le> n \<and> n \<le> 57) then False
      else if c = CHR ''-'' \<or> c = CHR ''_'' \<or> c = CHR ''.'' \<or> c = CHR ''~'' then False
      else True)"

fun QueryEscape :: "string \<Rightarrow> string" where
  "QueryEscape [] = []"
| "QueryEscape (c # cs) =
     (if shouldEscape c
      then (if c = CHR '' '' then CHR ''+'' # QueryEscape cs
            else CHR ''%'' # upperhex (of_char c div 16) # upperhex (of_char c mod 16)
                 # QueryEscape cs)
      else c # QueryEscape cs)"

text \<open>
  \<open>url.Values\<close> is a \<open>map[string][]string\<close>: an association list with one entry per key.
  \<open>Add\<close> appends a value to the key's list. \<open>Encode\<close> visits the keys in sorted (byte)
  order and writes \<open>key=value\<close> for every value, with \<open>&\<close> before each pair but the first.
\<close>

type_synonym Values = "(string \<times> string list) list"

definition Values_Get :: "Values \<Rightarrow> string \<Rightarrow> string list" where
  "Values_Get v key = (case map_of v key of None \<Rightarrow> [] | Some vs \<Rightarrow> vs)"

definition Values_Has :: "Values \<Rightarrow> string \<Rightarrow> bool" where
  "Values_Has v key = (map_of v key \<noteq> None)"

definition Values_Add :: "string \<Rightarrow> string \<Rightarrow> Values \<Rightarrow> Values" where
  "Values_Add key val v =
     (if Values_Has v key
      then map (\<lambda>(k, vs). if k = key then (k, vs @ [val]) else (k, vs)) v
      else v @ [(key, [val])])"

definition Encode_pair :: "string \<Rightarrow> string \<Rightarrow> string \<Rightarrow> string" where
  "Encode_pair keyEscaped val buf =
     (if length buf > 0 then buf @ ''&'' else buf) @ keyEscaped @ ''='' @ QueryEscape val"

definition Values_Encode :: "Values \<Rightarrow> string" where
  "Values_Encode v =
     (if length v = 0 then ''''
      else fold (\<lambda>k buf. fold (Encode_pair (QueryEscape k)) (Values_Get v k) buf)
             (sort (map fst v)) '''')"

section \<open>HTTP as the client sees it\<close>

text \<open>
  A response body is a stream: the bytes it delivers and, when reading breaks off, the
  error that ends it. \<open>io.ReadAll\<close> returns both.
\<close>

record body =
  body_data :: string
  body_err :: "go_error option"

definition ReadAll :: "body \<Rightarrow> string \<times> go_error option" where
  "ReadAll b = (body_data b, body_err b)"

record request =
  req_Method :: string
  req_URL :: string
  req_Header :: "(string \<times> string) list"
  req_Body :: "string option"

record response =
  StatusCode :: int
  resp_Body :: body

text \<open>\<open>Header.Set\<close> replaces the value stored under a key, or adds the key.\<close>

definition Header_Set :: "string \<Rightarrow> string \<Rightarrow> (string \<times> string) list \<Rightarrow> (string \<times> string) list" where
  "Header_Set key val h =
     (if map_of h key = None then h @ [(key, val)]
      else map (\<lambda>(k, x). if k = key then (k, val) else (k, x)) h)"

definition Header_Del :: "string \<Rightarrow> (string \<times> string) list \<Rightarrow> (string \<times> string) list" where
  "Header_Del key h = filter (\<lambda>(k, x). k \<noteq> key) h"

section \<open>JSON documents and the data model\<close>

text \<open>
  A JSON document as \<open>encoding/json\<close> scans it: a number keeps its literal text (the
  decoder converts it only when it knows the Go type it is decoding into), an object keeps
  its members in order, repeated keys included.
\<close>

datatype json =
    JNull
  | JBool bool
  | JNumber string
  | JString string
  | JArray "json list"
  | JObject "(string \<times> json) list"

text \<open>
  What decoding into a field of type \<open>any\<close> produces: \<open>nil\<close>, \<open>bool\<close>, \<open>float64\<close>,
  \<open>string\<close>, \<open>[]any\<close> or \<open>map[string]any\<close>. A finite \<open>float64\<close> is the real number it
  stands for. A map is listed by key in the order the keys were first stored. (A caller
  may store a value of any other Go type in such a field before a request is rendered;
  rendering is a parameter below, and those values are not in this type.)
\<close>

datatype go_any =
    AnyNil
  | AnyBool bool
  | AnyFloat64 real
  | AnyString string
  | AnySlice "go_any list"
  | AnyMap "(string \<times> go_any) list"

text \<open>
  \<open>type Block struct\<close> (source lines 28-45). The field \<open>Width\<close> has type \<open>any\<close>; \<open>FileSize\<close>
  is an \<open>int64\<close>, \<open>IndentationLevel\<close> and \<open>Height\<close> are \<open>int\<close>.
\<close>

datatype Block = Block
  (Block_ID: string)
  (Block_Type: string)
  (Block_TextStyle: string)
  (Block_Markdown: string)
  (Block_Content: "Block list")
  (Block_IndentationLevel: int)
  (Block_ListStyle: string)
  (Block_Font: string)
  (Block_Color: string)
  (Block_URL: string)
  (Block_AltText: string)
  (Block_Width: go_any)
  (Block_Height: int)
  (Block_FileName: string)
  (Block_MimeType: string)
  (Block_FileSize: int)

text \<open>The zero value \<open>var block Block\<close>.\<close>

definition zero_Block :: Block where
  "zero_Block = Block '''' '''' '''' '''' [] 0 '''' '''' '''' '''' '''' AnyNil 0 '''' '''' 0"

text \<open>Assignment to one field of a \<open>Block\<close>.\<close>

definition set_Block_ID :: "string \<Rightarrow> Block \<Rightarrow> Block" where
  "set_Block_ID x b = Block
     x (Block_Type b) (Block_TextStyle b) (Block_Markdown b) (Block_Content b)
       (Block_IndentationLevel b) (Block_ListStyle b) (Block_Font b) (Block_Color b)
       (Block_URL b) (Block_AltText b) (Block_Width b) (Block_Height b) (Block_FileName b)
       (Block_MimeType b) (Block_FileSize b)"

definition set_Block_Type :: "string \<Rightarrow> Block \<Rightarrow> Block" where
  "set_Block_Type x b = Block
     (Block_ID b) x (Block_TextStyle b) (Block_Markdown b) (Block_Content b)
       (Block_IndentationLevel b) (Block_ListStyle b) (Block_Font b) (Block_Color b)
       (Block_URL b) (Block_AltText b) (Block_Width b) (Block_Height b) (Block_FileName b)
       (Block_MimeType b) (Block_FileSize b)"

definition set_Block_TextStyle :: "string \<Rightarrow> Block \<Rightarrow> Block" where
  "set_Block_TextStyle x b = Block
     (Block_ID b) (Block_Type b) x (Block_Markdown b) (Block_Content b)
       (Block_IndentationLevel b) (Block_ListStyle b) (Block_Font b) (Block_Color b)
       (Block_URL b) (Block_AltText b) (Block_Width b) (Block_Height b) (Block_FileName b)
       (Block_MimeType b) (Block_FileSize b)"

definition set_Block_Markdown :: "string \<Rightarrow> Block \<Rightarrow> Block" where
  "set_Block_Markdown x b = Block
     (Block_ID b) (Block_Type b) (Block_TextStyle b) x (Block_Content b)
       (Block_IndentationLevel b) (Block_ListStyle b) (Block_Font b) (Block_Color b)
       (Block_URL b) (Block_AltText b) (Block_Width b) (Block_Height b) (Block_FileName b)
       (Block_MimeType b) (Block_FileSize b)"

definition set_Block_Content :: "Block list \<Rightarrow> Block \<Rightarrow> Block" where
  "set_Block_Content x b = Block
     (Block_ID b) (Block_Type b) (Block_TextStyle b) (Block_Markdown b) x
       (Block_IndentationLevel b) (Block_ListStyle b) (Block_Font b) (Block_Color b)
       (Block_URL b) (Block_AltText b) (Block_Width b) (Block_Height b) (Block_FileName b)
       (Block_MimeType b) (Block_FileSize b)"

definition set_Block_IndentationLevel :: "int \<Rightarrow> Block \<Rightarrow> Block" where
  "set_Block_IndentationLevel x b = Block
     (Block_ID b) (Block_Type b) (Block_TextStyle b) (Block_Markdown b) (Block_Content b) x
       (Block_ListStyle b) (Block_Font b) (Block_Color b) (Block_URL b) (Block_AltText b)
       (Block_Width b) (Block_Height b) (Block_FileName b) (Block_MimeType b)
       (Block_FileSize b)"

definition set_Block_ListStyle :: "string \<Rightarrow> Block \<Rightarrow> Block" where
  "set_Block_ListStyle x b = Block
     (Block_ID b) (Block_Type b) (Block_TextStyle b) (Block_Markdown b) (Block_Content b)
       (Block_IndentationLevel b) x (Block_Font b) (Block_Color b) (Block_URL b)
       (Block_AltText b) (Block_Width b) (Block_Height b) (Block_FileName b)
       (Block_MimeType b) (Block_FileSize b)"

definition set_Block_Font :: "string \<Rightarrow> Block \<Rightarrow> Block" where
  "set_Block_Font x b = Block
     (Block_ID b) (Block_Type b) (Block_TextStyle b) (Block_Markdown b) (Block_Content b)
       (Block_IndentationLevel b) (Block_ListStyle b) x (Block_Color b) (Block_URL b)
       (Block_AltText b) (Block_Width b) (Block_Height b) (Block_FileName b)
       (Block_MimeType b) (Block_FileSize b)"

definition set_Block_Color :: "string \<Rightarrow> Block \<Rightarrow> Block" where
  "set_Block_Color x b = Block
     (Block_ID b) (Block_Type b) (Block_TextStyle b) (Block_Markdown b) (Block_Content b)
       (Block_IndentationLevel b) (Block_ListStyle b) (Block_Font b) x (Block_URL b)
       (Block_AltText b) (Block_Width b) (Block_Height b) (Block_FileName b)
       (Block_MimeType b) (Block_FileSize b)"

definition set_Block_URL :: "string \<Rightarrow> Block \<Rightarrow> Block" where
  "set_Block_URL x b = Block
     (Block_ID b) (Block_Type b) (Block_TextStyle b) (Block_Markdown b) (Block_Content b)
       (Block_IndentationLevel b) (Block_ListStyle b) (Block_Font b) (Block_Color b) x
       (Block_AltText b) (Block_Width b) (Block_Height b) (Block_FileName b)
       (Block_MimeType b) (Block_FileSize b)"

definition set_Block_AltText :: "string \<Rightarrow> Block \<Rightarrow> Block" where
  "set_Block_AltText x b = Block
     (Block_ID b) (Block_Type b) (Block_TextStyle b) (Block_Markdown b) (Block_Content b)
       (Block_IndentationLevel b) (Block_ListStyle b) (Block_Font b) (Block_Color b)
       (Block_URL b) x (Block_Width b) (Block_Height b) (Block_FileName b)
       (Block_MimeType b) (Block_FileSize b)"

definition set_Block_Width :: "go_any \<Rightarrow> Block \<Rightarrow> Block" where
  "set_Block_Width x b = Block
     (Block_ID b) (Block_Type b) (Block_TextStyle b) (Block_Markdown b) (Block_Content b)
       (Block_IndentationLevel b) (Block_ListStyle b) (Block_Font b) (Block_Color b)
       (Block_URL b) (Block_AltText b) x (Block_Height b) (Block_FileName b)
       (Block_MimeType b) (Block_FileSize b)"

definition set_Block_Height :: "int \<Rightarrow> Block \<Rightarrow> Block" where
  "set_Block_Height x b = Block
     (Block_ID b) (Block_Type b) (Block_TextStyle b) (Block_Markdown b) (Block_Content b)
       (Block_IndentationLevel b) (Block_ListStyle b) (Block_Font b) (Block_Color b)
       (Block_URL b) (Block_AltText b) (Block_Width b) x (Block_FileName b)
       (Block_MimeType b) (Block_FileSize b)"

definition set_Block_FileName :: "string \<Rightarrow> Block \<Rightarrow> Block" where
  "set_Block_FileName x b = Block
     (Block_ID b) (Block_Type b) (Block_TextStyle b) (Block_Markdown b) (Block_Content b)
       (Block_IndentationLevel b) (Block_ListStyle b) (Block_Font b) (Block_Color b)
       (Block_URL b) (Block_AltText b) (Block_Width b) (Block_Height b) x
       (Block_MimeType b) (Block_FileSize b)"

definition set_Block_MimeType :: "string \<Rightarrow> Block \<Rightarrow> Block" where
  "set_Block_MimeType x b = Block
     (Block_ID b) (Block_Type b) (Block_TextStyle b) (Block_Markdown b) (Block_Content b)
       (Block_IndentationLevel b) (Block_ListStyle b) (Block_Font b) (Block_Color b)
       (Block_URL b) (Block_AltText b) (Block_Width b) (Block_Height b) (Block_FileName b)
       x (Block_FileSize b)"

definition set_Block_FileSize :: "int \<Rightarrow> Block \<Rightarrow> Block" where
  "set_Block_FileSize x b = Block
     (Block_ID b) (Block_Type b) (Block_TextStyle b) (Block_Markdown b) (Block_Content b)
       (Block_IndentationLevel b) (Block_ListStyle b) (Block_Font b) (Block_Color b)
       (Block_URL b) (Block_AltText b) (Block_Width b) (Block_Height b) (Block_FileName b)
       (Block_MimeType b) x"

text \<open>
  The other structs of the client (source lines 47-113) and the two of \<open>main.go\<close>. A
  slice that \<open>json.Marshal\<close> writes without \<open>omitempty\<close> is an option, \<open>None\<close> for the nil
  slice: there nil and empty differ on the wire (\<open>null\<close> against \<open>[]\<close>).
\<close>

record Position =
  Position_Position :: string
  Position_PageID :: string
  Position_SiblingID :: string

record InsertRequest =
  InsertRequest_Blocks :: "Block list"
  InsertRequest_Markdown :: string
  InsertRequest_Position :: Position

record UpdateRequest =
  UpdateRequest_Blocks :: "Block list option"

record DeleteRequest =
  DeleteRequest_BlockIDs :: "string list option"

record MoveRequest =
  MoveRequest_BlockIDs :: "string list option"
  MoveRequest_Position :: Position

record PagePathElement =
  PagePathElement_ID :: string
  PagePathElement_Content :: string

record ContextBlock =
  ContextBlock_BlockID :: string
  ContextBlock_Markdown :: string

record SearchMatch =
  SearchMatch_BlockID :: string
  SearchMatch_Markdown :: string
  SearchMatch_PageBlockPath :: "PagePathElement list"
  SearchMatch_BeforeBlocks :: "ContextBlock list"
  SearchMatch_AfterBlocks :: "ContextBlock list"

text \<open>\<open>Items\<close> is a \<open>json.RawMessage\<close>: the undecoded member, \<open>None\<close> while it is nil.\<close>

record ItemsResponse =
  Items :: "json option"

record UploadLinkRequest =
  UploadLinkRequest_FileName :: string
  UploadLinkRequest_MimeType :: string

record UploadLinkResponse =
  UploadURL :: string
  RawURL :: string

text \<open>The anonymous \<open>struct { ID string `json:"id"` }\<close> of DeleteBlocks and MoveBlocks.\<close>

record id_item =
  item_ID :: string

record QueryRequest =
  QueryRequest_Query :: string

record QueryResponse =
  QueryResponse_Status :: string
  QueryResponse_Query :: string

text \<open>
  \<open>HTTPClient\<close> points to an \<open>http.Client\<close>. \<open>NewClient\<close> stores a pointer to a zero
  \<open>http.Client\<close> (default transport, no timeout); a caller may store another client in the
  exported field, told apart here by a number. The pointer is never nil in this type:
  \<open>NewClient\<close> always sets it, and the methods are embedded for clients that have one.
\<close>

datatype http_Client = zero_http_Client | other_http_Client nat

record Client =
  BaseURL :: string
  HTTPClient :: http_Client

definition NewClient :: "string \<Rightarrow> Client" where
  "NewClient baseURL = \<lparr>BaseURL = baseURL, HTTPClient = zero_http_Client\<rparr>"

section \<open>The standard library and the remote side\<close>

text \<open>
  What the code takes from outside is a parameter of the model:
  \<^item> \<open>NewRequest_check\<close>: the validation of \<open>http.NewRequest\<close> (method token, URL syntax);
    \<open>Some err\<close> when it refuses;
  \<^item> \<open>RoundTrip\<close>: what \<open>(*http.Client).Do\<close> brings back for a request, and how the remote
    side changes by it;
  \<^item> \<open>Marshal\<close>: the bytes \<open>json.Marshal\<close> writes for a value, or its error;
  \<^item> \<open>Scan\<close>: the first JSON value \<open>json.NewDecoder(r).Decode\<close> finds on a stream, or its
    error (syntax error, unexpected end, read error);
  \<^item> \<open>ParseFloat\<close>: \<open>strconv.ParseFloat(s, 64)\<close>, used for a number stored in an \<open>any\<close>;
    \<open>None\<close> when it fails (a literal out of range).
\<close>

datatype marshal_arg =
    V_InsertRequest InsertRequest
  | V_UpdateRequest UpdateRequest
  | V_DeleteRequest DeleteRequest
  | V_MoveRequest MoveRequest
  | V_UploadLinkRequest UploadLinkRequest
  | V_QueryResponse QueryResponse

record 'r lib =
  NewRequest_check :: "string \<Rightarrow> string \<Rightarrow> go_error option"
  RoundTrip :: "http_Client \<Rightarrow> request \<Rightarrow> 'r \<Rightarrow> (go_error + response) \<times> 'r"
  Marshal :: "marshal_arg \<Rightarrow> go_error + string"
  Scan :: "body \<Rightarrow> go_error + json"
  ParseFloat :: "string \<Rightarrow> real option"

text \<open>
  The world outside the process: the state of the remote side and, as a record of what
  the client did, the requests handed to \<open>(*http.Client).Do\<close> so far, oldest first.
\<close>

record 'r world =
  sent :: "request list"
  remote :: 'r

text \<open>
  \<open>http.NewRequest(method, url, body)\<close> builds the request unless it refuses the method
  or the URL. \<open>(*http.Client).Do\<close> records the request and brings back what the
  transport answers.
\<close>

definition http_NewRequest :: "'r lib \<Rightarrow> string \<Rightarrow> string \<Rightarrow> string option \<Rightarrow> go_error + request" where
  "http_NewRequest L method url b =
     (case NewRequest_check L method url of
        Some err \<Rightarrow> Inl err
      | None \<Rightarrow> Inr \<lparr>req_Method = method, req_URL = url, req_Header = [], req_Body = b\<rparr>)"

definition Do :: "'r lib \<Rightarrow> http_Client \<Rightarrow> request \<Rightarrow> 'r world \<Rightarrow> (go_error + response) \<times> 'r world" where
  "Do L hc req w =
     (case RoundTrip L hc req (remote w) of
        (res, r') \<Rightarrow> (res, \<lparr>sent = sent w @ [req], remote = r'\<rparr>))"

section \<open>Decoding, as \<open>encoding/json\<close> does it for these types\<close>

text \<open>
  The decoder matches an object key against the \<open>json\<close> tags of the struct, exactly or
  else ignoring case; keys that match no field are skipped. Case is ignored by folding:
  \<open>a\<close>-\<open>z\<close> to upper case, and the two letters outside ASCII that fold onto ASCII ones
  (U+212A onto \<open>K\<close>, U+017F onto \<open>S\<close>). Other bytes above 127 stay as they are here; all
  tags are ASCII, so this decides the same matches.
\<close>

definition fold_byte :: "char \<Rightarrow> char" where
  "fold_byte c =
     (let n = (of_char c :: nat) in if 97 \<le> n \<and> n \<le> 122 then char_of (n - 32) else c)"

fun foldName :: "string \<Rightarrow> string" where
  "foldName (a # b # c # cs) =
     (if a = CHR 0xE2 \<and> b = CHR 0x84 \<and> c = CHR 0xAA then CHR ''K'' # foldName cs
      else if a = CHR 0xC5 \<and> b = CHR 0xBF then CHR ''S'' # foldName (c # cs)
      else fold_byte a # foldName (b # c # cs))"
| "foldName [a, b] =
     (if a = CHR 0xC5 \<and> b = CHR 0xBF then [CHR ''S''] else [fold_byte a, fold_byte b])"
| "foldName [a] = [fold_byte a]"
| "foldName [] = []"

definition fieldMatch :: "string \<Rightarrow> string \<Rightarrow> bool" where
  "fieldMatch key tag = (foldName key = foldName tag)"

text \<open>
  A JSON value of the wrong kind for its Go type is a \<open>*json.UnmarshalTypeError\<close>; its
  message names the kind and the type (the real message also names the struct field).
  The decoder goes on after such an error and returns the first one at the end, so the
  model stops at the first one.
\<close>

definition typeError :: "string \<Rightarrow> string \<Rightarrow> go_error" where
  "typeError val tname =
     libError ''*json.UnmarshalTypeError''
       (''json: cannot unmarshal '' @ val @ '' into Go value of type '' @ tname)"

fun json_kind :: "json \<Rightarrow> string" where
  "json_kind JNull = ''null''"
| "json_kind (JBool b) = ''bool''"
| "json_kind (JNumber lit) = ''number''"
| "json_kind (JString s) = ''string''"
| "json_kind (JArray js) = ''array''"
| "json_kind (JObject kvs) = ''object''"

text \<open>A string field: \<open>null\<close> leaves the field as it is.\<close>

definition decode_string :: "json \<Rightarrow> string \<Rightarrow> go_error + string" where
  "decode_string v old =
     (case v of JNull \<Rightarrow> Inr old | JString s \<Rightarrow> Inr s
      | _ \<Rightarrow> Inl (typeError (json_kind v) ''string''))"

text \<open>
  An \<open>int\<close> or \<open>int64\<close> field takes \<open>strconv.ParseInt(literal, 10, 64)\<close>: an optional
  sign, decimal digits only, and a value that fits 64 bits (\<open>int\<close> has 64 bits on the
  platforms the server runs on).
\<close>

fun digits_value :: "string \<Rightarrow> nat \<Rightarrow> nat option" where
  "digits_value [] acc = Some acc"
| "digits_value (c # cs) acc =
     (let n = (of_char c :: nat) in
      if 48 \<le> n \<and> n \<le> 57 then digits_value cs (10 * acc + (n - 48)) else None)"

definition ParseInt :: "string \<Rightarrow> int option" where
  "ParseInt s =
     (let neg = (s \<noteq> [] \<and> hd s = CHR ''-'');
          ds = (if s \<noteq> [] \<and> (hd s = CHR ''-'' \<or> hd s = CHR ''+'') then tl s else s)
      in if ds = [] then None
         else (case digits_value ds 0 of
                 None \<Rightarrow> None
               | Some n \<Rightarrow>
                   (let i = (if neg then - int n else int n)
                    in if - (2 ^ 63) \<le> i \<and> i < 2 ^ 63 then Some i else None)))"

definition decode_int :: "json \<Rightarrow> int \<Rightarrow> go_error + int" where
  "decode_int v old =
     (case v of
        JNull \<Rightarrow> Inr old
      | JNumber lit \<Rightarrow>
          (case ParseInt lit of
             None \<Rightarrow> Inl (typeError (''number '' @ lit) ''int'')
           | Some n \<Rightarrow> Inr n)
      | _ \<Rightarrow> Inl (typeError (json_kind v) ''int''))"

text \<open>
  A field of type \<open>any\<close> takes whatever value comes: \<open>null\<close> as nil, a number as the
  \<open>float64\<close> that \<open>strconv.ParseFloat\<close> (the parameter \<open>pf\<close>) reads from the literal, a
  string as a string, an array as \<open>[]any\<close>, an object as \<open>map[string]any\<close> in which a
  repeated key keeps its last value.
\<close>

definition map_store :: "string \<Rightarrow> 'a \<Rightarrow> (string \<times> 'a) list \<Rightarrow> (string \<times> 'a) list" where
  "map_store key x m =
     (if map_of m key = None then m @ [(key, x)]
      else map (\<lambda>(k, y). if k = key then (k, x) else (k, y)) m)"

function decode_any :: "(string \<Rightarrow> real option) \<Rightarrow> json \<Rightarrow> go_error + go_any"
  and decode_any_elems :: "(string \<Rightarrow> real option) \<Rightarrow> json list \<Rightarrow> go_error + go_any list"
  and decode_any_members ::
    "(string \<Rightarrow> real option) \<Rightarrow> (string \<times> json) list \<Rightarrow> (string \<times> go_any) list
      \<Rightarrow> go_error + (string \<times> go_any) list"
where
  "decode_any pf JNull = Inr AnyNil"
| "decode_any pf (JBool b) = Inr (AnyBool b)"
| "decode_any pf (JNumber lit) =
     (case pf lit of
        None \<Rightarrow> Inl (typeError (''number '' @ lit) ''float64'')
      | Some f \<Rightarrow> Inr (AnyFloat64 f))"
| "decode_any pf (JString s) = Inr (AnyString s)"
| "decode_any pf (JArray js) =
     (case decode_any_elems pf js of Inl err \<Rightarrow> Inl err | Inr xs \<Rightarrow> Inr (AnySlice xs))"
| "decode_any pf (JObject kvs) =
     (case decode_any_members pf kvs [] of Inl err \<Rightarrow> Inl err | Inr m \<Rightarrow> Inr (AnyMap m))"
| "decode_any_elems pf [] = Inr []"
| "decode_any_elems pf (j # js) =
     (case decode_any pf j of
        Inl err \<Rightarrow> Inl err
      | Inr x \<Rightarrow>
          (case decode_any_elems pf js of Inl err \<Rightarrow> Inl err | Inr xs \<Rightarrow> Inr (x # xs)))"
| "decode_any_members pf [] m = Inr m"
| "decode_any_members pf ((k, v) # kvs) m =
     (case decode_any pf v of
        Inl err \<Rightarrow> Inl err
      | Inr x \<Rightarrow> decode_any_members pf kvs (map_store k x m))"
  by pat_completeness auto
termination
  by (relation "measure (\<lambda>x. case x of
        Inl (pf, v) \<Rightarrow> size v
      | Inr (Inl (pf, js)) \<Rightarrow> size_list size js
      | Inr (Inr (pf, kvs, m)) \<Rightarrow> size_list (size_prod (\<lambda>_. 0) size) kvs)") auto

text \<open>
  A struct: \<open>null\<close> leaves it as it is, an object assigns its members in order through
  the struct's field table, any other value is a type error. A slice: \<open>null\<close> makes it
  nil, an array is decoded element by element, the \<open>i\<close>-th one into the element the slice
  already holds at \<open>i\<close> (or into a zero value beyond its length); what lay beyond the
  length of an earlier, longer array under the same key is not kept.
\<close>

fun decode_members ::
  "(string \<Rightarrow> json \<Rightarrow> 's \<Rightarrow> go_error + 's) \<Rightarrow> (string \<times> json) list \<Rightarrow> 's \<Rightarrow> go_error + 's" where
  "decode_members field [] s = Inr s"
| "decode_members field ((k, v) # kvs) s =
     (case field k v s of Inl err \<Rightarrow> Inl err | Inr s' \<Rightarrow> decode_members field kvs s')"

definition decode_struct ::
  "string \<Rightarrow> (string \<Rightarrow> json \<Rightarrow> 's \<Rightarrow> go_error + 's) \<Rightarrow> json \<Rightarrow> 's \<Rightarrow> go_error + 's" where
  "decode_struct tname field v s =
     (case v of JNull \<Rightarrow> Inr s | JObject kvs \<Rightarrow> decode_members field kvs s
      | _ \<Rightarrow> Inl (typeError (json_kind v) tname))"

fun decode_elems ::
  "(json \<Rightarrow> 'a \<Rightarrow> go_error + 'a) \<Rightarrow> 'a \<Rightarrow> json list \<Rightarrow> 'a list \<Rightarrow> go_error + 'a list" where
  "decode_elems dec z [] old = Inr []"
| "decode_elems dec z (j # js) old =
     (case dec j (case old of [] \<Rightarrow> z | x # _ \<Rightarrow> x) of
        Inl err \<Rightarrow> Inl err
      | Inr x \<Rightarrow>
          (case decode_elems dec z js (tl old) of
             Inl err \<Rightarrow> Inl err
           | Inr xs \<Rightarrow> Inr (x # xs)))"

definition decode_slice ::
  "string \<Rightarrow> (json \<Rightarrow> 'a \<Rightarrow> go_error + 'a) \<Rightarrow> 'a \<Rightarrow> json \<Rightarrow> 'a list \<Rightarrow> go_error + 'a list" where
  "decode_slice tname dec z v old =
     (case v of JNull \<Rightarrow> Inr [] | JArray js \<Rightarrow> decode_elems dec z js old
      | _ \<Rightarrow> Inl (typeError (json_kind v) tname))"

text \<open>Storing a decoded value in a field, or passing the error on.\<close>

definition assign :: "go_error + 'a \<Rightarrow> ('a \<Rightarrow> 's \<Rightarrow> 's) \<Rightarrow> 's \<Rightarrow> go_error + 's" where
  "assign r setter s = (case r of Inl err \<Rightarrow> Inl err | Inr x \<Rightarrow> Inr (setter x s))"

section \<open>Decoding the structs of the client\<close>

text \<open>
  The field table of \<open>Block\<close>, from its \<open>json\<close> tags (source lines 29-44), for every
  field but \<open>content\<close>, which recurses and is decoded below.
\<close>

definition Block_field :: "(string \<Rightarrow> real option) \<Rightarrow> string \<Rightarrow> json \<Rightarrow> Block \<Rightarrow> go_error + Block" where
  "Block_field pf k v b =
     (if fieldMatch k ''id'' then assign (decode_string v (Block_ID b)) set_Block_ID b
      else if fieldMatch k ''type'' then assign (decode_string v (Block_Type b)) set_Block_Type b
      else if fieldMatch k ''textStyle'' then assign (decode_string v (Block_TextStyle b)) set_Block_TextStyle b
      else if fieldMatch k ''markdown'' then assign (decode_string v (Block_Markdown b)) set_Block_Markdown b
      else if fieldMatch k ''indentationLevel'' then assign (decode_int v (Block_IndentationLevel b)) set_Block_IndentationLevel b
      else if fieldMatch k ''listStyle'' then assign (decode_string v (Block_ListStyle b)) set_Block_ListStyle b
      else if fieldMatch k ''font'' then assign (decode_string v (Block_Font b)) set_Block_Font b
      else if fieldMatch k ''color'' then assign (decode_string v (Block_Color b)) set_Block_Color b
      else if fieldMatch k ''url'' then assign (decode_string v (Block_URL b)) set_Block_URL b
      else if fieldMatch k ''altText'' then assign (decode_string v (Block_AltText b)) set_Block_AltText b
      else if fieldMatch k ''width'' then assign (decode_any pf v) set_Block_Width b
      else if fieldMatch k ''height'' then assign (decode_int v (Block_Height b)) set_Block_Height b
      else if fieldMatch k ''fileName'' then assign (decode_string v (Block_FileName b)) set_Block_FileName b
      else if fieldMatch k ''mimeType'' then assign (decode_string v (Block_MimeType b)) set_Block_MimeType b
      else if fieldMatch k ''fileSize'' then assign (decode_int v (Block_FileSize b)) set_Block_FileSize b
      else Inr b)"

function decode_Block :: "(string \<Rightarrow> real option) \<Rightarrow> json \<Rightarrow> Block \<Rightarrow> go_error + Block"
  and decode_Block_members ::
    "(string \<Rightarrow> real option) \<Rightarrow> (string \<times> json) list \<Rightarrow> Block \<Rightarrow> go_error + Block"
  and decode_Block_elems ::
    "(string \<Rightarrow> real option) \<Rightarrow> json list \<Rightarrow> Block list \<Rightarrow> go_error + Block list"
where
  "decode_Block pf JNull b = Inr b"
| "decode_Block pf (JObject kvs) b = decode_Block_members pf kvs b"
| "decode_Block pf (JBool x) b = Inl (typeError ''bool'' ''client.Block'')"
| "decode_Block pf (JNumber lit) b = Inl (typeError ''number'' ''client.Block'')"
| "decode_Block pf (JString x) b = Inl (typeError ''string'' ''client.Block'')"
| "decode_Block pf (JArray js) b = Inl (typeError ''array'' ''client.Block'')"
| "decode_Block_members pf [] b = Inr b"
| "decode_Block_members pf ((k, v) # kvs) b =
     (case (if fieldMatch k ''content''
            then (case v of
                    JNull \<Rightarrow> Inr (set_Block_Content [] b)
                  | JArray js \<Rightarrow> assign (decode_Block_elems pf js (Block_Content b)) set_Block_Content b
                  | JBool x \<Rightarrow> Inl (typeError ''bool'' ''[]client.Block'')
                  | JNumber lit \<Rightarrow> Inl (typeError ''number'' ''[]client.Block'')
                  | JString x \<Rightarrow> Inl (typeError ''string'' ''[]client.Block'')
                  | JObject ms \<Rightarrow> Inl (typeError ''object'' ''[]client.Block''))
            else Block_field pf k v b) of
        Inl err \<Rightarrow> Inl err
      | Inr b' \<Rightarrow> decode_Block_members pf kvs b')"
| "decode_Block_elems pf [] old = Inr []"
| "decode_Block_elems pf (j # js) old =
     (case decode_Block pf j (case old of [] \<Rightarrow> zero_Block | x # _ \<Rightarrow> x) of
        Inl err \<Rightarrow> Inl err
      | Inr x \<Rightarrow>
          (case decode_Block_elems pf js (tl old) of
             Inl err \<Rightarrow> Inl err
           | Inr xs \<Rightarrow> Inr (x # xs)))"
  by pat_completeness auto
termination
  by (relation "measure (\<lambda>x. case x of
        Inl (pf, v, b) \<Rightarrow> size v
      | Inr (Inl (pf, kvs, b)) \<Rightarrow> size_list (size_prod (\<lambda>_. 0) size) kvs
      | Inr (Inr (pf, js, old)) \<Rightarrow> size_list size js)") auto

text \<open>The field tables of the other structs that are decoded (source lines 78-113).\<close>

definition PagePathElement_field ::
  "string \<Rightarrow> json \<Rightarrow> PagePathElement \<Rightarrow> go_error + PagePathElement" where
  "PagePathElement_field k v s =
     (if fieldMatch k ''id''
      then assign (decode_string v (PagePathElement_ID s)) (\<lambda>x s. s\<lparr>PagePathElement_ID := x\<rparr>) s
      else if fieldMatch k ''content''
      then assign (decode_string v (PagePathElement_Content s))
             (\<lambda>x s. s\<lparr>PagePathElement_Content := x\<rparr>) s
      else Inr s)"

definition zero_PagePathElement :: PagePathElement where
  "zero_PagePathElement = \<lparr>PagePathElement_ID = '''', PagePathElement_Content = ''''\<rparr>"

definition ContextBlock_field :: "string \<Rightarrow> json \<Rightarrow> ContextBlock \<Rightarrow> go_error + ContextBlock" where
  "ContextBlock_field k v s =
     (if fieldMatch k ''blockId''
      then assign (decode_string v (ContextBlock_BlockID s)) (\<lambda>x s. s\<lparr>ContextBlock_BlockID := x\<rparr>) s
      else if fieldMatch k ''markdown''
      then assign (decode_string v (ContextBlock_Markdown s))
             (\<lambda>x s. s\<lparr>ContextBlock_Markdown := x\<rparr>) s
      else Inr s)"

definition zero_ContextBlock :: ContextBlock where
  "zero_ContextBlock = \<lparr>ContextBlock_BlockID = '''', ContextBlock_Markdown = ''''\<rparr>"

definition SearchMatch_field :: "string \<Rightarrow> json \<Rightarrow> SearchMatch \<Rightarrow> go_error + SearchMatch" where
  "SearchMatch_field k v s =
     (if fieldMatch k ''blockId''
      then assign (decode_string v (SearchMatch_BlockID s)) (\<lambda>x s. s\<lparr>SearchMatch_BlockID := x\<rparr>) s
      else if fieldMatch k ''markdown''
      then assign (decode_string v (SearchMatch_Markdown s)) (\<lambda>x s. s\<lparr>SearchMatch_Markdown := x\<rparr>) s
      else if fieldMatch k ''pageBlockPath''
      then assign (decode_slice ''[]client.PagePathElement''
                    (decode_struct ''client.PagePathElement'' PagePathElement_field)
                    zero_PagePathElement v (SearchMatch_PageBlockPath s))
             (\<lambda>x s. s\<lparr>SearchMatch_PageBlockPath := x\<rparr>) s
      else if fieldMatch k ''beforeBlocks''
      then assign (decode_slice ''[]client.ContextBlock''
                    (decode_struct ''client.ContextBlock'' ContextBlock_field)
                    zero_ContextBlock v (SearchMatch_BeforeBlocks s))
             (\<lambda>x s. s\<lparr>SearchMatch_BeforeBlocks := x\<rparr>) s
      else if fieldMatch k ''afterBlocks''
      then assign (decode_slice ''[]client.ContextBlock''
                    (decode_struct ''client.ContextBlock'' ContextBlock_field)
                    zero_ContextBlock v (SearchMatch_AfterBlocks s))
             (\<lambda>x s. s\<lparr>SearchMatch_AfterBlocks := x\<rparr>) s
      else Inr s)"

definition zero_SearchMatch :: SearchMatch where
  "zero_SearchMatch =
     \<lparr>SearchMatch_BlockID = '''', SearchMatch_Markdown = '''', SearchMatch_PageBlockPath = [],
      SearchMatch_BeforeBlocks = [], SearchMatch_AfterBlocks = []\<rparr>"

text \<open>A \<open>json.RawMessage\<close> field keeps the member as it stands, \<open>null\<close> included.\<close>

definition ItemsResponse_field :: "string \<Rightarrow> json \<Rightarrow> ItemsResponse \<Rightarrow> go_error + ItemsResponse" where
  "ItemsResponse_field k v s = (if fieldMatch k ''items'' then Inr (s\<lparr>Items := Some v\<rparr>) else Inr s)"

definition UploadLinkResponse_field ::
  "string \<Rightarrow> json \<Rightarrow> UploadLinkResponse \<Rightarrow> go_error + UploadLinkResponse" where
  "UploadLinkResponse_field k v s =
     (if fieldMatch k ''uploadUrl''
      then assign (decode_string v (UploadURL s)) (\<lambda>x s. s\<lparr>UploadURL := x\<rparr>) s
      else if fieldMatch k ''rawUrl''
      then assign (decode_string v (RawURL s)) (\<lambda>x s. s\<lparr>RawURL := x\<rparr>) s
      else Inr s)"

definition id_item_field :: "string \<Rightarrow> json \<Rightarrow> id_item \<Rightarrow> go_error + id_item" where
  "id_item_field k v s =
     (if fieldMatch k ''id'' then assign (decode_string v (item_ID s)) (\<lambda>x s. s\<lparr>item_ID := x\<rparr>) s
      else Inr s)"

definition QueryRequest_field :: "string \<Rightarrow> json \<Rightarrow> QueryRequest \<Rightarrow> go_error + QueryRequest" where
  "QueryRequest_field k v s =
     (if fieldMatch k ''query''
      then assign (decode_string v (QueryRequest_Query s)) (\<lambda>x s. s\<lparr>QueryRequest_Query := x\<rparr>) s
      else Inr s)"

text \<open>
  \<open>json.NewDecoder(r).Decode(&x)\<close> for a freshly declared \<open>x\<close>: scan the first value of
  the stream, then decode it into the zero value.
\<close>

definition Decode_Block :: "'r lib \<Rightarrow> body \<Rightarrow> go_error + Block" where
  "Decode_Block L r =
     (case Scan L r of Inl err \<Rightarrow> Inl err | Inr v \<Rightarrow> decode_Block (ParseFloat L) v zero_Block)"

definition Decode_ItemsResponse :: "'r lib \<Rightarrow> body \<Rightarrow> go_error + ItemsResponse" where
  "Decode_ItemsResponse L r =
     (case Scan L r of
        Inl err \<Rightarrow> Inl err
      | Inr v \<Rightarrow> decode_struct ''client.ItemsResponse'' ItemsResponse_field v \<lparr>Items = None\<rparr>)"

definition Decode_UploadLinkResponse :: "'r lib \<Rightarrow> body \<Rightarrow> go_error + UploadLinkResponse" where
  "Decode_UploadLinkResponse L r =
     (case Scan L r of
        Inl err \<Rightarrow> Inl err
      | Inr v \<Rightarrow>
          decode_struct ''client.UploadLinkResponse'' UploadLinkResponse_field v
            \<lparr>UploadURL = '''', RawURL = ''''\<rparr>)"

definition Decode_QueryRequest :: "'r lib \<Rightarrow> body \<Rightarrow> go_error + QueryRequest" where
  "Decode_QueryRequest L r =
     (case Scan L r of
        Inl err \<Rightarrow> Inl err
      | Inr v \<Rightarrow>
          decode_struct ''main.QueryRequest'' QueryRequest_field v \<lparr>QueryRequest_Query = ''''\<rparr>)"

text \<open>
  \<open>json.Unmarshal(itemsResp.Items, &xs)\<close> for a freshly declared slice \<open>xs\<close>. A nil
  \<open>RawMessage\<close> is empty input, which is a syntax error.
\<close>

definition Unmarshal_raw :: "json option \<Rightarrow> (json \<Rightarrow> go_error + 'a) \<Rightarrow> go_error + 'a" where
  "Unmarshal_raw raw dec =
     (case raw of
        None \<Rightarrow> Inl (libError ''*json.SyntaxError'' ''unexpected end of JSON input'')
      | Some v \<Rightarrow> dec v)"

definition decode_Block_slice :: "(string \<Rightarrow> real option) \<Rightarrow> json \<Rightarrow> go_error + Block list" where
  "decode_Block_slice pf v =
     (case v of JNull \<Rightarrow> Inr [] | JArray js \<Rightarrow> decode_Block_elems pf js []
      | _ \<Rightarrow> Inl (typeError (json_kind v) ''[]client.Block''))"

definition decode_id_items :: "json \<Rightarrow> go_error + id_item list" where
  "decode_id_items v =
     decode_slice ''[]struct { ID string }''
       (decode_struct ''struct { ID string }'' id_item_field) \<lparr>item_ID = ''''\<rparr> v []"

definition decode_SearchMatches :: "json \<Rightarrow> go_error + SearchMatch list" where
  "decode_SearchMatches v =
     decode_slice ''[]client.SearchMatch''
       (decode_struct ''client.SearchMatch'' SearchMatch_field) zero_SearchMatch v []"

section \<open>The eight operations of the client\<close>

text \<open>
  Each method has the pointer receiver \<open>c *Client\<close>. The model takes the \<open>Client\<close> that
  \<open>c\<close> points to and the world, and returns the method's result, the \<open>Client\<close> as the
  call leaves it, and the world as the call leaves it. \<open>defer resp.Body.Close()\<close> releases
  the connection and has no part in the result.
\<close>

definition FetchBlocks ::
  "'r lib \<Rightarrow> string \<Rightarrow> int \<Rightarrow> bool \<Rightarrow> Client \<Rightarrow> 'r world \<Rightarrow> (go_error + Block) \<times> Client \<times> 'r world" where
  "FetchBlocks L id' maxDepth fetchMetadata c w =
     (let reqURL = BaseURL c @ ''/blocks'';
          params = [];
          params = (if id' \<noteq> '''' then Values_Add ''id'' id' params else params);
          params = (if maxDepth \<noteq> - 1 then Values_Add ''maxDepth'' (Itoa maxDepth) params
                    else params);
          params = (if fetchMetadata then Values_Add ''fetchMetadata'' ''true'' params
                    else params);
          reqURL = (if length params > 0 then reqURL @ ''?'' @ Values_Encode params else reqURL)
      in case http_NewRequest L ''GET'' reqURL None of
           Inl err \<Rightarrow> (Inl (Errorf_w ''creating request: '' err), c, w)
         | Inr req \<Rightarrow>
             (let req = req\<lparr>req_Header := Header_Set ''Accept'' ''application/json'' (req_Header req)\<rparr>
              in case Do L (HTTPClient c) req w of
                   (Inl err, w') \<Rightarrow> (Inl (Errorf_w ''executing request: '' err), c, w')
                 | (Inr resp, w') \<Rightarrow>
                     if StatusCode resp \<noteq> 200
                     then (let body = fst (ReadAll (resp_Body resp))
                           in (Inl (errorString (''unexpected status '' @ Itoa (StatusCode resp)
                                                  @ '': '' @ body)), c, w'))
                     else (case Decode_Block L (resp_Body resp) of
                             Inl err \<Rightarrow> (Inl (Errorf_w ''decoding response: '' err), c, w')
                           | Inr block \<Rightarrow> (Inr block, c, w'))))"

definition FetchBlocksMarkdown ::
  "'r lib \<Rightarrow> string \<Rightarrow> int \<Rightarrow> Client \<Rightarrow> 'r world \<Rightarrow> (go_error + string) \<times> Client \<times> 'r world" where
  "FetchBlocksMarkdown L id' maxDepth c w =
     (let reqURL = BaseURL c @ ''/blocks'';
          params = [];
          params = (if id' \<noteq> '''' then Values_Add ''id'' id' params else params);
          params = (if maxDepth \<noteq> - 1 then Values_Add ''maxDepth'' (Itoa maxDepth) params
                    else params);
          reqURL = (if length params > 0 then reqURL @ ''?'' @ Values_Encode params else reqURL)
      in case http_NewRequest L ''GET'' reqURL None of
           Inl err \<Rightarrow> (Inl (Errorf_w ''creating request: '' err), c, w)
         | Inr req \<Rightarrow>
             (let req = req\<lparr>req_Header := Header_Set ''Accept'' ''text/markdown'' (req_Header req)\<rparr>
              in case Do L (HTTPClient c) req w of
                   (Inl err, w') \<Rightarrow> (Inl (Errorf_w ''executing request: '' err), c, w')
                 | (Inr resp, w') \<Rightarrow>
                     if StatusCode resp \<noteq> 200
                     then (let body = fst (ReadAll (resp_Body resp))
                           in (Inl (errorString (''unexpected status '' @ Itoa (StatusCode resp)
                                                  @ '': '' @ body)), c, w'))
                     else (case ReadAll (resp_Body resp) of
                             (body, Some err) \<Rightarrow> (Inl (Errorf_w ''reading response: '' err), c, w')
                           | (body, None) \<Rightarrow> (Inr body, c, w'))))"

definition InsertBlocks ::
  "'r lib \<Rightarrow> InsertRequest \<Rightarrow> Client \<Rightarrow> 'r world \<Rightarrow> (go_error + Block list) \<times> Client \<times> 'r world" where
  "InsertBlocks L req c w =
     (let reqURL = BaseURL c @ ''/blocks''
      in case Marshal L (V_InsertRequest req) of
           Inl err \<Rightarrow> (Inl (Errorf_w ''marshaling request: '' err), c, w)
         | Inr jsonData \<Rightarrow>
        (case http_NewRequest L ''POST'' reqURL (Some jsonData) of
           Inl err \<Rightarrow> (Inl (Errorf_w ''creating request: '' err), c, w)
         | Inr httpReq \<Rightarrow>
             (let httpReq = httpReq\<lparr>req_Header :=
                              Header_Set ''Content-Type'' ''application/json'' (req_Header httpReq)\<rparr>
              in case Do L (HTTPClient c) httpReq w of
                   (Inl err, w') \<Rightarrow> (Inl (Errorf_w ''executing request: '' err), c, w')
                 | (Inr resp, w') \<Rightarrow>
                     if StatusCode resp \<noteq> 200
                     then (let body = fst (ReadAll (resp_Body resp))
                           in (Inl (errorString (''unexpected status '' @ Itoa (StatusCode resp)
                                                  @ '': '' @ body)), c, w'))
                     else (case Decode_ItemsResponse L (resp_Body resp) of
                             Inl err \<Rightarrow> (Inl (Errorf_w ''decoding response: '' err), c, w')
                           | Inr itemsResp \<Rightarrow>
                               (case Unmarshal_raw (Items itemsResp)
                                       (decode_Block_slice (ParseFloat L)) of
                                  Inl err \<Rightarrow> (Inl (Errorf_w ''unmarshaling blocks: '' err), c, w')
                                | Inr blocks \<Rightarrow> (Inr blocks, c, w'))))))"

definition UpdateBlocks ::
  "'r lib \<Rightarrow> UpdateRequest \<Rightarrow> Client \<Rightarrow> 'r world \<Rightarrow> (go_error + Block list) \<times> Client \<times> 'r world" where
  "UpdateBlocks L req c w =
     (let reqURL = BaseURL c @ ''/blocks''
      in case Marshal L (V_UpdateRequest req) of
           Inl err \<Rightarrow> (Inl (Errorf_w ''marshaling request: '' err), c, w)
         | Inr jsonData \<Rightarrow>
        (case http_NewRequest L ''PUT'' reqURL (Some jsonData) of
           Inl err \<Rightarrow> (Inl (Errorf_w ''creating request: '' err), c, w)
         | Inr httpReq \<Rightarrow>
             (let httpReq = httpReq\<lparr>req_Header :=
                              Header_Set ''Content-Type'' ''application/json'' (req_Header httpReq)\<rparr>
              in case Do L (HTTPClient c) httpReq w of
                   (Inl err, w') \<Rightarrow> (Inl (Errorf_w ''executing request: '' err), c, w')
                 | (Inr resp, w') \<Rightarrow>
                     if StatusCode resp \<noteq> 200
                     then (let body = fst (ReadAll (resp_Body resp))
                           in (Inl (errorString (''unexpected status '' @ Itoa (StatusCode resp)
                                                  @ '': '' @ body)), c, w'))
                     else (case Decode_ItemsResponse L (resp_Body resp) of
                             Inl err \<Rightarrow> (Inl (Errorf_w ''decoding response: '' err), c, w')
                           | Inr itemsResp \<Rightarrow>
                               (case Unmarshal_raw (Items itemsResp)
                                       (decode_Block_slice (ParseFloat L)) of
                                  Inl err \<Rightarrow> (Inl (Errorf_w ''unmarshaling blocks: '' err), c, w')
                                | Inr blocks \<Rightarrow> (Inr blocks, c, w'))))))"

text \<open>
  The loop \<open>for i, item := range items { ids[i] = item.ID }\<close> over a slice \<open>ids\<close> made
  with \<open>len(items)\<close> elements: \<open>i\<close> starts at 0 and stays below the length of \<open>ids\<close>.
\<close>

fun range_assign_ids :: "nat \<Rightarrow> id_item list \<Rightarrow> string list \<Rightarrow> string list" where
  "range_assign_ids i [] ids = ids"
| "range_assign_ids i (item # items) ids = range_assign_ids (Suc i) items (ids[i := item_ID item])"

definition DeleteBlocks ::
  "'r lib \<Rightarrow> string list option \<Rightarrow> Client \<Rightarrow> 'r world
    \<Rightarrow> (go_error + string list) \<times> Client \<times> 'r world" where
  "DeleteBlocks L blockIDs c w =
     (let reqURL = BaseURL c @ ''/blocks'';
          req = \<lparr>DeleteRequest_BlockIDs = blockIDs\<rparr>
      in case Marshal L (V_DeleteRequest req) of
           Inl err \<Rightarrow> (Inl (Errorf_w ''marshaling request: '' err), c, w)
         | Inr jsonData \<Rightarrow>
        (case http_NewRequest L ''DELETE'' reqURL (Some jsonData) of
           Inl err \<Rightarrow> (Inl (Errorf_w ''creating request: '' err), c, w)
         | Inr httpReq \<Rightarrow>
             (let httpReq = httpReq\<lparr>req_Header :=
                              Header_Set ''Content-Type'' ''application/json'' (req_Header httpReq)\<rparr>
              in case Do L (HTTPClient c) httpReq w of
                   (Inl err, w') \<Rightarrow> (Inl (Errorf_w ''executing request: '' err), c, w')
                 | (Inr resp, w') \<Rightarrow>
                     if StatusCode resp \<noteq> 200 \<and> StatusCode resp \<noteq> 207
                     then (let body = fst (ReadAll (resp_Body resp))
                           in (Inl (errorString (''unexpected status '' @ Itoa (StatusCode resp)
                                                  @ '': '' @ body)), c, w'))
                     else (case Decode_ItemsResponse L (resp_Body resp) of
                             Inl err \<Rightarrow> (Inl (Errorf_w ''decoding response: '' err), c, w')
                           | Inr itemsResp \<Rightarrow>
                               (case Unmarshal_raw (Items itemsResp) decode_id_items of
                                  Inl err \<Rightarrow>
                                    (Inl (Errorf_w ''unmarshaling deleted IDs: '' err), c, w')
                                | Inr deletedItems \<Rightarrow>
                                    (let ids = replicate (length deletedItems) '''';
                                         ids = range_assign_ids 0 deletedItems ids
                                     in (Inr ids, c, w')))))))"

definition MoveBlocks ::
  "'r lib \<Rightarrow> MoveRequest \<Rightarrow> Client \<Rightarrow> 'r world \<Rightarrow> (go_error + string list) \<times> Client \<times> 'r world" where
  "MoveBlocks L req c w =
     (let reqURL = BaseURL c @ ''/blocks/move''
      in case Marshal L (V_MoveRequest req) of
           Inl err \<Rightarrow> (Inl (Errorf_w ''marshaling request: '' err), c, w)
         | Inr jsonData \<Rightarrow>
        (case http_NewRequest L ''PUT'' reqURL (Some jsonData) of
           Inl err \<Rightarrow> (Inl (Errorf_w ''creating request: '' err), c, w)
         | Inr httpReq \<Rightarrow>
             (let httpReq = httpReq\<lparr>req_Header :=
                              Header_Set ''Content-Type'' ''application/json'' (req_Header httpReq)\<rparr>
              in case Do L (HTTPClient c) httpReq w of
                   (Inl err, w') \<Rightarrow> (Inl (Errorf_w ''executing request: '' err), c, w')
                 | (Inr resp, w') \<Rightarrow>
                     if StatusCode resp \<noteq> 200 \<and> StatusCode resp \<noteq> 207
                     then (let body = fst (ReadAll (resp_Body resp))
                           in (Inl (errorString (''unexpected status '' @ Itoa (StatusCode resp)
                                                  @ '': '' @ body)), c, w'))
                     else (case Decode_ItemsResponse L (resp_Body resp) of
                             Inl err \<Rightarrow> (Inl (Errorf_w ''decoding response: '' err), c, w')
                           | Inr itemsResp \<Rightarrow>
                               (case Unmarshal_raw (Items itemsResp) decode_id_items of
                                  Inl err \<Rightarrow>
                                    (Inl (Errorf_w ''unmarshaling moved IDs: '' err), c, w')
                                | Inr movedItems \<Rightarrow>
                                    (let ids = replicate (length movedItems) '''';
                                         ids = range_assign_ids 0 movedItems ids
                                     in (Inr ids, c, w')))))))"

definition Search ::
  "'r lib \<Rightarrow> string \<Rightarrow> bool \<Rightarrow> int \<Rightarrow> int \<Rightarrow> Client \<Rightarrow> 'r world
    \<Rightarrow> (go_error + SearchMatch list) \<times> Client \<times> 'r world" where
  "Search L pattern caseSensitive beforeCount afterCount c w =
     (let reqURL = BaseURL c @ ''/blocks/search'';
          params = [];
          params = Values_Add ''pattern'' pattern params;
          params = (if caseSensitive then Values_Add ''caseSensitive'' ''true'' params
                    else params);
          params = (if beforeCount > 0
                    then Values_Add ''beforeBlockCount'' (Itoa beforeCount) params else params);
          params = (if afterCount > 0
                    then Values_Add ''afterBlockCount'' (Itoa afterCount) params else params);
          reqURL = reqURL @ ''?'' @ Values_Encode params
      in case http_NewRequest L ''GET'' reqURL None of
           Inl err \<Rightarrow> (Inl (Errorf_w ''creating request: '' err), c, w)
         | Inr req \<Rightarrow>
             (case Do L (HTTPClient c) req w of
                (Inl err, w') \<Rightarrow> (Inl (Errorf_w ''executing request: '' err), c, w')
              | (Inr resp, w') \<Rightarrow>
                  if StatusCode resp \<noteq> 200
                  then (let body = fst (ReadAll (resp_Body resp))
                        in (Inl (errorString (''unexpected status '' @ Itoa (StatusCode resp)
                                               @ '': '' @ body)), c, w'))
                  else (case Decode_ItemsResponse L (resp_Body resp) of
                          Inl err \<Rightarrow> (Inl (Errorf_w ''decoding response: '' err), c, w')
                        | Inr itemsResp \<Rightarrow>
                            (case Unmarshal_raw (Items itemsResp) decode_SearchMatches of
                               Inl err \<Rightarrow>
                                 (Inl (Errorf_w ''unmarshaling search results: '' err), c, w')
                             | Inr matches \<Rightarrow> (Inr matches, c, w')))))"

definition GenerateUploadURL ::
  "'r lib \<Rightarrow> string \<Rightarrow> string \<Rightarrow> Client \<Rightarrow> 'r world
    \<Rightarrow> (go_error + UploadLinkResponse) \<times> Client \<times> 'r world" where
  "GenerateUploadURL L fileName mimeType c w =
     (let reqURL = BaseURL c @ ''/upload-link'';
          req = \<lparr>UploadLinkRequest_FileName = fileName, UploadLinkRequest_MimeType = mimeType\<rparr>
      in case Marshal L (V_UploadLinkRequest req) of
           Inl err \<Rightarrow> (Inl (Errorf_w ''marshaling request: '' err), c, w)
         | Inr jsonData \<Rightarrow>
        (case http_NewRequest L ''POST'' reqURL (Some jsonData) of
           Inl err \<Rightarrow> (Inl (Errorf_w ''creating request: '' err), c, w)
         | Inr httpReq \<Rightarrow>
             (let httpReq = httpReq\<lparr>req_Header :=
                              Header_Set ''Content-Type'' ''application/json'' (req_Header httpReq)\<rparr>
              in case Do L (HTTPClient c) httpReq w of
                   (Inl err, w') \<Rightarrow> (Inl (Errorf_w ''executing request: '' err), c, w')
                 | (Inr resp, w') \<Rightarrow>
                     if StatusCode resp \<noteq> 200
                     then (let body = fst (ReadAll (resp_Body resp))
                           in (Inl (errorString (''unexpected status '' @ Itoa (StatusCode resp)
                                                  @ '': '' @ body)), c, w'))
                     else (case Decode_UploadLinkResponse L (resp_Body resp) of
                             Inl err \<Rightarrow> (Inl (Errorf_w ''decoding response: '' err), c, w')
                           | Inr uploadResp \<Rightarrow> (Inr uploadResp, c, w')))))"

section \<open>The demo server's handler (\<open>main.go\<close>)\<close>

text \<open>
  The handler reads the request's method and body and writes to an
  \<open>http.ResponseWriter\<close>: headers, one status line, body bytes. It returns, or it panics
  (the server then drops the connection without a response). The lines it prints to the
  log and the clock it reads for them are left out; the element \<open>insertedBlocks[0]\<close> that
  only the log line uses is still read.
\<close>

record http_Request =
  Request_Method :: string
  Request_Body :: body

record ResponseWriter =
  rw_Header :: "(string \<times> string) list"
  rw_Status :: "int option"
  rw_Body :: string

definition new_ResponseWriter :: ResponseWriter where
  "new_ResponseWriter = \<lparr>rw_Header = [], rw_Status = None, rw_Body = ''''\<rparr>"

datatype outcome = Returned ResponseWriter | Panicked string

definition WriteHeader :: "int \<Rightarrow> ResponseWriter \<Rightarrow> ResponseWriter" where
  "WriteHeader code rw = (if rw_Status rw = None then rw\<lparr>rw_Status := Some code\<rparr> else rw)"

definition Write :: "string \<Rightarrow> ResponseWriter \<Rightarrow> ResponseWriter" where
  "Write bytes rw = (let rw = WriteHeader 200 rw in rw\<lparr>rw_Body := rw_Body rw @ bytes\<rparr>)"

text \<open>\<open>http.Error\<close>: a plain-text reply with the given status; the message and a newline.\<close>

definition http_Error :: "ResponseWriter \<Rightarrow> string \<Rightarrow> int \<Rightarrow> ResponseWriter" where
  "http_Error rw msg code =
     (let h = Header_Del ''Content-Length'' (rw_Header rw);
          h = Header_Set ''Content-Type'' ''text/plain; charset=utf-8'' h;
          h = Header_Set ''X-Content-Type-Options'' ''nosniff'' h;
          rw = rw\<lparr>rw_Header := h\<rparr>;
          rw = WriteHeader code rw
      in Write (msg @ [CHR 0x0A]) rw)"

definition main_BaseURL :: string where
  "main_BaseURL = ''https://connect.craft.do/links/3tXZdMX0EIe/api/v1''"

definition handleCraftHackathon ::
  "'r lib \<Rightarrow> ResponseWriter \<Rightarrow> http_Request \<Rightarrow> 'r world \<Rightarrow> outcome \<times> 'r world" where
  "handleCraftHackathon L rw r w =
     (if Request_Method r \<noteq> ''POST''
      then (Returned (http_Error rw ''Method not allowed'' 405), w)
      else (case Decode_QueryRequest L (Request_Body r) of
              Inl err \<Rightarrow> (Returned (http_Error rw (''Invalid JSON: '' @ Error err) 400), w)
            | Inr req \<Rightarrow>
         (let c = NewClient main_BaseURL
          in case FetchBlocks L '''' 0 False c w of
               (Inl err, c, w) \<Rightarrow>
                 (Returned (http_Error rw (''Failed to fetch document: '' @ Error err) 500), w)
             | (Inr root', c, w) \<Rightarrow>
            (let insertReq =
                   \<lparr>InsertRequest_Blocks = [],
                    InsertRequest_Markdown = QueryRequest_Query req,
                    InsertRequest_Position =
                      \<lparr>Position_Position = ''end'', Position_PageID = Block_ID root',
                       Position_SiblingID = ''''\<rparr>\<rparr>
             in case InsertBlocks L insertReq c w of
                  (Inl err, c, w) \<Rightarrow>
                    (Returned (http_Error rw (''Failed to add content: '' @ Error err) 500), w)
                | (Inr insertedBlocks, c, w) \<Rightarrow>
                    if \<not> 0 < length insertedBlocks
                    then (Panicked ''runtime error: index out of range [0] with length 0'', w)
                    else (let blockID = Block_ID (insertedBlocks ! 0);
                              response = \<lparr>QueryResponse_Status = ''created'',
                                          QueryResponse_Query = QueryRequest_Query req\<rparr>;
                              rw = rw\<lparr>rw_Header :=
                                     Header_Set ''Content-Type'' ''application/json'' (rw_Header rw)\<rparr>;
                              rw = WriteHeader 200 rw
                          in case Marshal L (V_QueryResponse response) of
                               Inl err \<Rightarrow> (Returned rw, w)
                             | Inr bytes \<Rightarrow> (Returned (Write (bytes @ [CHR 0x0A]) rw), w))))))"

section \<open>Notions the statements use\<close>

text \<open>
  The URL that reaches \<open>http.NewRequest\<close> in the three operations that build a query
  string: the value of \<open>reqURL\<close> after source lines 117-132 (FetchBlocks), 161-173
  (FetchBlocksMarkdown) and 373-387 (Search).
\<close>

definition FetchBlocks_reqURL :: "Client \<Rightarrow> string \<Rightarrow> int \<Rightarrow> bool \<Rightarrow> string" where
  "FetchBlocks_reqURL c id' maxDepth fetchMetadata =
     (let reqURL = BaseURL c @ ''/blocks'';
          params = [];
          params = (if id' \<noteq> '''' then Values_Add ''id'' id' params else params);
          params = (if maxDepth \<noteq> - 1 then Values_Add ''maxDepth'' (Itoa maxDepth) params
                    else params);
          params = (if fetchMetadata then Values_Add ''fetchMetadata'' ''true'' params
                    else params);
          reqURL = (if length params > 0 then reqURL @ ''?'' @ Values_Encode params else reqURL)
      in reqURL)"

definition FetchBlocksMarkdown_reqURL :: "Client \<Rightarrow> string \<Rightarrow> int \<Rightarrow> string" where
  "FetchBlocksMarkdown_reqURL c id' maxDepth =
     (let reqURL = BaseURL c @ ''/blocks'';
          params = [];
          params = (if id' \<noteq> '''' then Values_Add ''id'' id' params else params);
          params = (if maxDepth \<noteq> - 1 then Values_Add ''maxDepth'' (Itoa maxDepth) params
                    else params);
          reqURL = (if length params > 0 then reqURL @ ''?'' @ Values_Encode params else reqURL)
      in reqURL)"

definition Search_reqURL :: "Client \<Rightarrow> string \<Rightarrow> bool \<Rightarrow> int \<Rightarrow> int \<Rightarrow> string" where
  "Search_reqURL c pattern caseSensitive beforeCount afterCount =
     (let reqURL = BaseURL c @ ''/blocks/search'';
          params = [];
          params = Values_Add ''pattern'' pattern params;
          params = (if caseSensitive then Values_Add ''caseSensitive'' ''true'' params
                    else params);
          params = (if beforeCount > 0
                    then Values_Add ''beforeBlockCount'' (Itoa beforeCount) params else params);
          params = (if afterCount > 0
                    then Values_Add ''afterBlockCount'' (Itoa afterCount) params else params);
          reqURL = reqURL @ ''?'' @ Values_Encode params
      in reqURL)"

text \<open>
  A query string written out: the \<open>name=value\<close> pairs that are present, joined by \<open>&\<close>,
  after a \<open>?\<close>; nothing at all when no pair is present.
\<close>

fun join_amp :: "string list \<Rightarrow> string" where
  "join_amp [] = ''''"
| "join_amp [p] = p"
| "join_amp (p # q # ps) = p @ ''&'' @ join_amp (q # ps)"

definition query_suffix :: "string list \<Rightarrow> string" where
  "query_suffix ps = (if ps = [] then '''' else ''?'' @ join_amp ps)"

text \<open>
  The text of the error for a status that is not accepted:
  \<open>fmt.Errorf("unexpected status %d: %s", resp.StatusCode, string(body))\<close>.
\<close>

definition unexpected_status :: "response \<Rightarrow> go_error" where
  "unexpected_status resp =
     errorString (''unexpected status '' @ Itoa (StatusCode resp) @ '': ''
                  @ body_data (resp_Body resp))"

text \<open>
  The two-stage decoding the specification describes for list results: first the
  envelope \<open>{"items": ...}\<close> generically, then \<open>items\<close> into the element type of the
  operation (\<open>dec\<close>); \<open>what\<close> is the operation's word in its second error message.
\<close>

definition envelope_then_items ::
  "'r lib \<Rightarrow> string \<Rightarrow> (json \<Rightarrow> go_error + 'a list) \<Rightarrow> body \<Rightarrow> go_error + 'a list" where
  "envelope_then_items L what dec b =
     (case Decode_ItemsResponse L b of
        Inl err \<Rightarrow> Inl (Errorf_w ''decoding response: '' err)
      | Inr envelope \<Rightarrow>
          (case Unmarshal_raw (Items envelope) dec of
             Inl err \<Rightarrow> Inl (Errorf_w (''unmarshaling '' @ what @ '': '') err)
           | Inr xs \<Rightarrow> Inr xs))"

text \<open>
  The four failure modes of the specification's taxonomy, the one a call ran into as the
  environment shows it (nothing was sent; the transport failed on the request sent; the
  status was not accepted; anything after that), and the mode a caller can read off the
  text of an error.
\<close>

datatype failure_mode = ConstructionError | TransportError | RemoteStatusError | DecodeError

definition failure_of ::
  "'r lib \<Rightarrow> (int \<Rightarrow> bool) \<Rightarrow> Client \<Rightarrow> 'r world \<Rightarrow> 'r world \<Rightarrow> failure_mode" where
  "failure_of L accepted c w w' =
     (if sent w' = sent w then ConstructionError
      else (case fst (RoundTrip L (HTTPClient c) (last (sent w')) (remote w)) of
              Inl err \<Rightarrow> TransportError
            | Inr resp \<Rightarrow> if accepted (StatusCode resp) then DecodeError else RemoteStatusError))"

definition has_prefix :: "string \<Rightarrow> string \<Rightarrow> bool" where
  "has_prefix p s = (take (length p) s = p)"

definition mode_of_message :: "string \<Rightarrow> failure_mode option" where
  "mode_of_message m =
     (if has_prefix ''marshaling request: '' m \<or> has_prefix ''creating request: '' m
      then Some ConstructionError
      else if has_prefix ''executing request: '' m then Some TransportError
      else if has_prefix ''unexpected status '' m then Some RemoteStatusError
      else if has_prefix ''decoding response: '' m \<or> has_prefix ''reading response: '' m
              \<or> has_prefix ''unmarshaling '' m
      then Some DecodeError
      else None)"

definition only_200 :: "int \<Rightarrow> bool" where
  "only_200 s = (s = 200)"

definition ok_200_207 :: "int \<Rightarrow> bool" where
  "ok_200_207 s = (s = 200 \<or> s = 207)"

text \<open>
  What a status means for a result. An accepted status lets the call go on to the body:
  it succeeds, or it fails in decoding (a \<open>*fmt.wrapError\<close>), and never with the
  unexpected-status error. Any other status ends in exactly that error, an
  \<open>*errors.errorString\<close> with the status code and the body read.
\<close>

definition accepted_or_refused :: "(int \<Rightarrow> bool) \<Rightarrow> response \<Rightarrow> go_error + 'a \<Rightarrow> bool" where
  "accepted_or_refused accepted resp r =
     (if accepted (StatusCode resp)
      then (case r of
              Inr x \<Rightarrow> True
            | Inl e \<Rightarrow> mode_of_message (Error e) = Some DecodeError \<and>
                       error_type e = ''*fmt.wrapError'')
      else r = Inl (unexpected_status resp))"

section \<open>An environment for the examples\<close>

text \<open>
  The concrete instances below run the operations against a small environment. Its
  transport plays back a script: the remote state is the list of answers still to give,
  and with none left the connection is refused. Its \<open>http.NewRequest\<close> refuses a URL that
  holds a control byte, as the real one does. Its JSON scanner and renderer know the
  documents listed here and nothing else.
\<close>

definition root_document :: string where
  \<open>root_document = ''{"id":"0","type":"page"}''\<close>

definition no_items_document :: string where
  \<open>no_items_document = ''{"items":[]}''\<close>

definition two_ids_document :: string where
  \<open>two_ids_document = ''{"items":[{"id":"b"},{"id":"a"}]}''\<close>

definition one_block_document :: string where
  \<open>one_block_document = ''{"items":[{"id":"7","type":"text","markdown":"Hello"}]}''\<close>

definition one_match_document :: string where
  \<open>one_match_document = ''{"items":[{"blockId":"5","markdown":"TODO","beforeBlocks":[]}]}''\<close>

definition upload_document :: string where
  \<open>upload_document = ''{"uploadUrl":"https://s3.test/put","rawUrl":"https://s3.test/raw"}''\<close>

definition query_document :: string where
  \<open>query_document = ''{"query":"Hello"}''\<close>

definition width_auto_document :: string where
  \<open>width_auto_document = ''{"width":"auto"}''\<close>

definition width_600_document :: string where
  \<open>width_600_document = ''{"width":600}''\<close>

definition image_auto_document :: string where
  \<open>image_auto_document = ''{"id":"9","type":"image","width":"auto","height":300}''\<close>

definition image_600_document :: string where
  \<open>image_600_document = ''{"id":"9","type":"image","width":600,"height":300}''\<close>

definition example_Scan :: "body \<Rightarrow> go_error + json" where
  "example_Scan b =
     (let d = body_data b in
      if d = root_document
      then Inr (JObject [(''id'', JString ''0''), (''type'', JString ''page'')])
      else if d = no_items_document
      then Inr (JObject [(''items'', JArray [])])
      else if d = two_ids_document
      then Inr (JObject [(''items'', JArray [JObject [(''id'', JString ''b'')],
                                            JObject [(''id'', JString ''a'')]])])
      else if d = one_block_document
      then Inr (JObject [(''items'', JArray [JObject [(''id'', JString ''7''),
                  (''type'', JString ''text''), (''markdown'', JString ''Hello'')]])])
      else if d = one_match_document
      then Inr (JObject [(''items'', JArray [JObject [(''blockId'', JString ''5''),
                  (''markdown'', JString ''TODO''), (''beforeBlocks'', JArray [])]])])
      else if d = upload_document
      then Inr (JObject [(''uploadUrl'', JString ''https://s3.test/put''),
                         (''rawUrl'', JString ''https://s3.test/raw'')])
      else if d = query_document
      then Inr (JObject [(''query'', JString ''Hello'')])
      else if d = width_auto_document
      then Inr (JObject [(''width'', JString ''auto'')])
      else if d = width_600_document
      then Inr (JObject [(''width'', JNumber ''600'')])
      else if d = image_auto_document
      then Inr (JObject [(''id'', JString ''9''), (''type'', JString ''image''),
                         (''width'', JString ''auto''), (''height'', JNumber ''300'')])
      else if d = image_600_document
      then Inr (JObject [(''id'', JString ''9''), (''type'', JString ''image''),
                         (''width'', JNumber ''600''), (''height'', JNumber ''300'')])
      else Inl (libError ''*json.SyntaxError'' ''invalid character''))"

definition hello_InsertRequest :: InsertRequest where
  "hello_InsertRequest =
     \<lparr>InsertRequest_Blocks = [], InsertRequest_Markdown = ''Hello'',
      InsertRequest_Position =
        \<lparr>Position_Position = ''end'', Position_PageID = ''0'', Position_SiblingID = ''''\<rparr>\<rparr>"

definition hello_InsertRequest_text :: string where
  \<open>hello_InsertRequest_text = ''{"markdown":"Hello","position":{"position":"end","pageId":"0"}}''\<close>

definition created_text :: string where
  \<open>created_text = ''{"status":"created","query":"Hello"}''\<close>

definition abz_DeleteRequest_text :: string where
  \<open>abz_DeleteRequest_text = ''{"blockIds":["a","b","zz"]}''\<close>

definition ab_MoveRequest :: MoveRequest where
  "ab_MoveRequest =
     \<lparr>MoveRequest_BlockIDs = Some [''a'', ''b''],
      MoveRequest_Position =
        \<lparr>Position_Position = ''start'', Position_PageID = ''0'', Position_SiblingID = ''''\<rparr>\<rparr>"

definition ab_MoveRequest_text :: string where
  \<open>ab_MoveRequest_text = ''{"blockIds":["a","b"],"position":{"position":"start","pageId":"0"}}''\<close>

definition no_blocks_UpdateRequest_text :: string where
  \<open>no_blocks_UpdateRequest_text = ''{"blocks":[]}''\<close>

definition png_UploadLinkRequest_text :: string where
  \<open>png_UploadLinkRequest_text = ''{"fileName":"a.png"}''\<close>

definition example_Marshal :: "marshal_arg \<Rightarrow> go_error + string" where
  "example_Marshal v =
     (if v = V_InsertRequest hello_InsertRequest then Inr hello_InsertRequest_text
      else if v = V_QueryResponse
                    \<lparr>QueryResponse_Status = ''created'', QueryResponse_Query = ''Hello''\<rparr>
      then Inr created_text
      else if v = V_UpdateRequest \<lparr>UpdateRequest_Blocks = Some []\<rparr>
      then Inr no_blocks_UpdateRequest_text
      else if v = V_DeleteRequest \<lparr>DeleteRequest_BlockIDs = Some [''a'', ''b'', ''zz'']\<rparr>
      then Inr abz_DeleteRequest_text
      else if v = V_MoveRequest ab_MoveRequest then Inr ab_MoveRequest_text
      else if v = V_UploadLinkRequest
                    \<lparr>UploadLinkRequest_FileName = ''a.png'', UploadLinkRequest_MimeType = ''''\<rparr>
      then Inr png_UploadLinkRequest_text
      else Inl (libError ''*json.UnsupportedValueError'' ''json: unsupported value''))"

definition example_NewRequest_check :: "string \<Rightarrow> string \<Rightarrow> go_error option" where
  "example_NewRequest_check method url =
     (if list_ex (\<lambda>c. (of_char c :: nat) < 32 \<or> c = CHR 0x7F) url
      then Some (libError ''*url.Error'' ''net/url: invalid control character in URL'')
      else None)"

definition script_RoundTrip ::
  "http_Client \<Rightarrow> request \<Rightarrow> (go_error + response) list
    \<Rightarrow> (go_error + response) \<times> (go_error + response) list" where
  "script_RoundTrip hc req script =
     (case script of
        [] \<Rightarrow> (Inl (libError ''*url.Error'' ''dial tcp: connection refused''), [])
      | a # rest \<Rightarrow> (a, rest))"

definition example_ParseFloat :: "string \<Rightarrow> real option" where
  "example_ParseFloat s = (if s = ''600'' then Some 600 else None)"

definition example_lib :: "(go_error + response) list lib" where
  "example_lib =
     \<lparr>NewRequest_check = example_NewRequest_check, RoundTrip = script_RoundTrip,
      Marshal = example_Marshal, Scan = example_Scan, ParseFloat = example_ParseFloat\<rparr>"

definition plain_body :: "string \<Rightarrow> body" where
  "plain_body text = \<lparr>body_data = text, body_err = None\<rparr>"

definition answer :: "int \<Rightarrow> string \<Rightarrow> go_error + response" where
  "answer status text = Inr \<lparr>StatusCode = status, resp_Body = plain_body text\<rparr>"

definition world_with :: "(go_error + response) list \<Rightarrow> (go_error + response) list world" where
  "world_with script = \<lparr>sent = [], remote = script\<rparr>"

definition example_client :: Client where
  "example_client = NewClient ''https://example.test/api/v1''"

text \<open>A client whose base URL was read with its line feed.\<close>

definition newline_client :: Client where
  "newline_client = NewClient (''https://example.test/api/v1'' @ [CHR 0x0A])"

definition post_query :: http_Request where
  "post_query = \<lparr>Request_Method = ''POST'', Request_Body = plain_body query_document\<rparr>"

section \<open>Facts about the helper functions\<close>

text \<open>The loop of DeleteBlocks and MoveBlocks fills \<open>ids\<close> with the items' IDs, in order.\<close>

lemma range_assign_ids_from:
  "i + length items \<le> length ids \<Longrightarrow>
   range_assign_ids i items ids = take i ids @ map item_ID items @ drop (i + length items) ids"
proof (induction items arbitrary: i ids)
  case Nil
  then show ?case by simp
next
  case (Cons a items)
  have "range_assign_ids (Suc i) items (ids[i := item_ID a]) =
        take (Suc i) (ids[i := item_ID a]) @ map item_ID items @
        drop (Suc i + length items) (ids[i := item_ID a])"
    using Cons.prems by (intro Cons.IH) simp
  moreover have "take (Suc i) (ids[i := item_ID a]) = take i ids @ [item_ID a]"
    using Cons.prems by (simp add: take_Suc_conv_app_nth)
  ultimately show ?case by simp
qed

lemma range_assign_ids_map:
  "range_assign_ids 0 items (replicate (length items) []) = map item_ID items"
  using range_assign_ids_from [of 0 items "replicate (length items) []"] by simp

text \<open>Digits and the minus sign pass \<open>QueryEscape\<close> unchanged.\<close>

lemma QueryEscape_unreserved: "\<forall>c\<in>set s. \<not> shouldEscape c \<Longrightarrow> QueryEscape s = s"
  by (induction s) simp_all

lemma digit_char_plain: "d < 10 \<Longrightarrow> \<not> shouldEscape (digit_char d)"
proof -
  assume "d < 10"
  then have "d \<in> {0, 1, 2, 3, 4, 5, 6, 7, 8, 9}" by auto
  then show ?thesis
    by (auto simp: digit_char_def shouldEscape_def)
qed

lemma dec_nat_plain: "\<forall>c\<in>set (dec_nat n). \<not> shouldEscape c"
proof (induction n rule: dec_nat.induct)
  case (1 n)
  show ?case
  proof (cases "n < 10")
    case True
    then show ?thesis by (simp add: dec_nat.simps [of n] digit_char_plain)
  next
    case False
    then show ?thesis using 1 by (simp add: dec_nat.simps [of n] digit_char_plain)
  qed
qed

lemma QueryEscape_Itoa: "QueryEscape (Itoa n) = Itoa n"
  using dec_nat_plain
  by (intro QueryEscape_unreserved) (auto simp: Itoa_def shouldEscape_def)

text \<open>The query strings in closed form: the keys come out in sorted order.\<close>

lemma FetchBlocks_reqURL_closed:
  "FetchBlocks_reqURL c i d f =
     BaseURL c @ ''/blocks'' @
     query_suffix ((if f then [''fetchMetadata=true''] else []) @
                   (if i \<noteq> '''' then [''id='' @ QueryEscape i] else []) @
                   (if d \<noteq> - 1 then [''maxDepth='' @ Itoa d] else []))"
  by (simp add: FetchBlocks_reqURL_def Values_Add_def Values_Has_def Values_Encode_def
        Values_Get_def Encode_pair_def query_suffix_def QueryEscape_Itoa shouldEscape_def)

lemma FetchBlocksMarkdown_reqURL_closed:
  "FetchBlocksMarkdown_reqURL c i d =
     BaseURL c @ ''/blocks'' @
     query_suffix ((if i \<noteq> '''' then [''id='' @ QueryEscape i] else []) @
                   (if d \<noteq> - 1 then [''maxDepth='' @ Itoa d] else []))"
  by (simp add: FetchBlocksMarkdown_reqURL_def Values_Add_def Values_Has_def Values_Encode_def
        Values_Get_def Encode_pair_def query_suffix_def QueryEscape_Itoa shouldEscape_def)


text \<open>The three operations with a query string, with their URL named.\<close>

lemma FetchBlocks_reqURL_intro:
  "FetchBlocks L id' maxDepth fetchMetadata c w =
     (case http_NewRequest L ''GET'' (FetchBlocks_reqURL c id' maxDepth fetchMetadata) None of
           Inl err \<Rightarrow> (Inl (Errorf_w ''creating request: '' err), c, w)
         | Inr req \<Rightarrow>
             (let req = req\<lparr>req_Header := Header_Set ''Accept'' ''application/json'' (req_Header req)\<rparr>
              in case Do L (HTTPClient c) req w of
                   (Inl err, w') \<Rightarrow> (Inl (Errorf_w ''executing request: '' err), c, w')
                 | (Inr resp, w') \<Rightarrow>
                     if StatusCode resp \<noteq> 200
                     then (let body = fst (ReadAll (resp_Body resp))
                           in (Inl (errorString (''unexpected status '' @ Itoa (StatusCode resp)
                                                  @ '': '' @ body)), c, w'))
                     else (case Decode_Block L (resp_Body resp) of
                             Inl err \<Rightarrow> (Inl (Errorf_w ''decoding response: '' err), c, w')
                           | Inr block \<Rightarrow> (Inr block, c, w'))))"
  by (simp only: FetchBlocks_def FetchBlocks_reqURL_def Let_def)

lemma FetchBlocksMarkdown_reqURL_intro:
  "FetchBlocksMarkdown L id' maxDepth c w =
     (case http_NewRequest L ''GET'' (FetchBlocksMarkdown_reqURL c id' maxDepth) None of
           Inl err \<Rightarrow> (Inl (Errorf_w ''creating request: '' err), c, w)
         | Inr req \<Rightarrow>
             (let req = req\<lparr>req_Header := Header_Set ''Accept'' ''text/markdown'' (req_Header req)\<rparr>
              in case Do L (HTTPClient c) req w of
                   (Inl err, w') \<Rightarrow> (Inl (Errorf_w ''executing request: '' err), c, w')
                 | (Inr resp, w') \<Rightarrow>
                     if StatusCode resp \<noteq> 200
                     then (let body = fst (ReadAll (resp_Body resp))
                           in (Inl (errorString (''unexpected status '' @ Itoa (StatusCode resp)
                                                  @ '': '' @ body)), c, w'))
                     else (case ReadAll (resp_Body resp) of
                             (body, Some err) \<Rightarrow> (Inl (Errorf_w ''reading response: '' err), c, w')
                           | (body, None) \<Rightarrow> (Inr body, c, w'))))"
  by (simp only: FetchBlocksMarkdown_def FetchBlocksMarkdown_reqURL_def Let_def)

lemma Search_reqURL_intro:
  "Search L pattern caseSensitive beforeCount afterCount c w =
     (case http_NewRequest L ''GET''
             (Search_reqURL c pattern caseSensitive beforeCount afterCount) None of
           Inl err \<Rightarrow> (Inl (Errorf_w ''creating request: '' err), c, w)
         | Inr req \<Rightarrow>
             (case Do L (HTTPClient c) req w of
                (Inl err, w') \<Rightarrow> (Inl (Errorf_w ''executing request: '' err), c, w')
              | (Inr resp, w') \<Rightarrow>
                  if StatusCode resp \<noteq> 200
                  then (let body = fst (ReadAll (resp_Body resp))
                        in (Inl (errorString (''unexpected status '' @ Itoa (StatusCode resp)
                                               @ '': '' @ body)), c, w'))
                  else (case Decode_ItemsResponse L (resp_Body resp) of
                          Inl err \<Rightarrow> (Inl (Errorf_w ''decoding response: '' err), c, w')
                        | Inr itemsResp \<Rightarrow>
                            (case Unmarshal_raw (Items itemsResp) decode_SearchMatches of
                               Inl err \<Rightarrow>
                                 (Inl (Errorf_w ''unmarshaling search results: '' err), c, w')
                             | Inr matches \<Rightarrow> (Inr matches, c, w')))))"
  by (simp only: Search_def Search_reqURL_def Let_def)

text \<open>The mode a caller reads off each message prefix the client writes.\<close>

lemma mode_marshaling: "mode_of_message (''marshaling request: '' @ x) = Some ConstructionError"
  by (simp add: mode_of_message_def has_prefix_def)

lemma mode_creating: "mode_of_message (''creating request: '' @ x) = Some ConstructionError"
  by (simp add: mode_of_message_def has_prefix_def)

lemma mode_executing: "mode_of_message (''executing request: '' @ x) = Some TransportError"
  by (simp add: mode_of_message_def has_prefix_def)

lemma mode_status: "mode_of_message (''unexpected status '' @ x) = Some RemoteStatusError"
  by (simp add: mode_of_message_def has_prefix_def)

lemma mode_decoding: "mode_of_message (''decoding response: '' @ x) = Some DecodeError"
  by (simp add: mode_of_message_def has_prefix_def)

lemma mode_reading: "mode_of_message (''reading response: '' @ x) = Some DecodeError"
  by (simp add: mode_of_message_def has_prefix_def)

lemma mode_unmarshaling: "mode_of_message (''unmarshaling '' @ x) = Some DecodeError"
  by (simp add: mode_of_message_def has_prefix_def)

lemmas mode_simps =
  mode_marshaling [unfolded append.simps] mode_creating [unfolded append.simps]
  mode_executing [unfolded append.simps] mode_status [unfolded append.simps]
  mode_decoding [unfolded append.simps] mode_reading [unfolded append.simps]
  mode_unmarshaling [unfolded append.simps]

section \<open>Facts about each operation\<close>

text \<open>\<open>FetchBlocks\<close>: what it sends, and what it makes of the answer.\<close>

lemma FetchBlocks_client: "fst (snd (FetchBlocks L id' maxDepth fetchMetadata c w)) = c"
  unfolding FetchBlocks_reqURL_intro
  by (simp add: Let_def split: sum.split prod.split option.split)

lemma FetchBlocks_sent_cases:
  assumes "FetchBlocks L id' maxDepth fetchMetadata c w = (res, c', w')"
  shows "sent w' = sent w \<or> (\<exists>rq. sent w' = sent w @ [rq])"
  using assms unfolding FetchBlocks_reqURL_intro
  by (auto simp: Let_def Do_def split: sum.splits prod.splits option.splits if_splits)

lemma FetchBlocks_not_sent:
  assumes "FetchBlocks L id' maxDepth fetchMetadata c w = (res, c', w')"
    and "sent w' = sent w"
  shows "\<exists>err. res = Inl (Errorf_w ''creating request: '' err)"
  using assms unfolding FetchBlocks_reqURL_intro
  by (auto simp: Let_def Do_def split: sum.splits prod.splits option.splits if_splits)

lemma FetchBlocks_answered:
  assumes "FetchBlocks L id' maxDepth fetchMetadata c w = (res, c', w')"
    and "sent w' = sent w @ [rq]"
    and "RoundTrip L (HTTPClient c) rq (remote w) = (a, rem)"
  shows "res = (case a of
                  Inl err \<Rightarrow> Inl (Errorf_w ''executing request: '' err)
                | Inr resp \<Rightarrow>
                    if StatusCode resp \<noteq> 200 then Inl (unexpected_status resp)
                    else (case Decode_Block L (resp_Body resp) of
                       Inl err \<Rightarrow> Inl (Errorf_w ''decoding response: '' err)
                     | Inr block \<Rightarrow> Inr block))"
  using assms unfolding FetchBlocks_reqURL_intro
  by (auto simp: Let_def Do_def unexpected_status_def ReadAll_def envelope_then_items_def
        range_assign_ids_map split: sum.splits prod.splits option.splits if_splits)


lemma FetchBlocks_mode:
  assumes run: "FetchBlocks L id' maxDepth fetchMetadata c w = (Inl e, c', w')"
  shows "mode_of_message (Error e) = Some (failure_of L only_200 c w w') \<and>
         error_type e = (if failure_of L only_200 c w w' = RemoteStatusError
                         then ''*errors.errorString'' else ''*fmt.wrapError'')"
proof -
  consider "sent w' = sent w" | rq where "sent w' = sent w @ [rq]"
    using FetchBlocks_sent_cases [OF run] by blast
  then show ?thesis
  proof cases
    case 1
    then show ?thesis
      using FetchBlocks_not_sent [OF run 1]
      by (auto simp: failure_of_def Errorf_w_def mode_simps)
  next
    case 2
    obtain a rem where rt: "RoundTrip L (HTTPClient c) rq (remote w) = (a, rem)"
      by (cases "RoundTrip L (HTTPClient c) rq (remote w)")
    show ?thesis
      using FetchBlocks_answered [OF run 2 rt] 2 rt
      by (auto simp: failure_of_def Errorf_w_def mode_simps only_200_def ok_200_207_def
            unexpected_status_def envelope_then_items_def
            split: sum.splits if_splits option.splits)
  qed
qed

text \<open>\<open>FetchBlocksMarkdown\<close>: what it sends, and what it makes of the answer.\<close>

lemma FetchBlocksMarkdown_client: "fst (snd (FetchBlocksMarkdown L id' maxDepth c w)) = c"
  unfolding FetchBlocksMarkdown_reqURL_intro
  by (simp add: Let_def split: sum.split prod.split option.split)

lemma FetchBlocksMarkdown_sent_cases:
  assumes "FetchBlocksMarkdown L id' maxDepth c w = (res, c', w')"
  shows "sent w' = sent w \<or> (\<exists>rq. sent w' = sent w @ [rq])"
  using assms unfolding FetchBlocksMarkdown_reqURL_intro
  by (auto simp: Let_def Do_def split: sum.splits prod.splits option.splits if_splits)

lemma FetchBlocksMarkdown_not_sent:
  assumes "FetchBlocksMarkdown L id' maxDepth c w = (res, c', w')"
    and "sent w' = sent w"
  shows "\<exists>err. res = Inl (Errorf_w ''creating request: '' err)"
  using assms unfolding FetchBlocksMarkdown_reqURL_intro
  by (auto simp: Let_def Do_def split: sum.splits prod.splits option.splits if_splits)

lemma FetchBlocksMarkdown_answered:
  assumes "FetchBlocksMarkdown L id' maxDepth c w = (res, c', w')"
    and "sent w' = sent w @ [rq]"
    and "RoundTrip L (HTTPClient c) rq (remote w) = (a, rem)"
  shows "res = (case a of
                  Inl err \<Rightarrow> Inl (Errorf_w ''executing request: '' err)
                | Inr resp \<Rightarrow>
                    if StatusCode resp \<noteq> 200 then Inl (unexpected_status resp)
                    else (case body_err (resp_Body resp) of
                       Some err \<Rightarrow> Inl (Errorf_w ''reading response: '' err)
                     | None \<Rightarrow> Inr (body_data (resp_Body resp))))"
  using assms unfolding FetchBlocksMarkdown_reqURL_intro
  by (auto simp: Let_def Do_def unexpected_status_def ReadAll_def envelope_then_items_def
        range_assign_ids_map split: sum.splits prod.splits option.splits if_splits)

lemma FetchBlocksMarkdown_sends:
  assumes "NewRequest_check L ''GET'' (FetchBlocksMarkdown_reqURL c id' maxDepth) = None"
  shows "sent (snd (snd (FetchBlocksMarkdown L id' maxDepth c w))) =
         sent w @ [\<lparr>req_Method = ''GET'', req_URL = FetchBlocksMarkdown_reqURL c id' maxDepth,
                    req_Header = [(''Accept'', ''text/markdown'')], req_Body = None\<rparr>]"
  using assms unfolding FetchBlocksMarkdown_reqURL_intro
  by (auto simp: Let_def Do_def http_NewRequest_def Header_Set_def split: sum.splits prod.splits option.splits if_splits)

lemma FetchBlocksMarkdown_mode:
  assumes run: "FetchBlocksMarkdown L id' maxDepth c w = (Inl e, c', w')"
  shows "mode_of_message (Error e) = Some (failure_of L only_200 c w w') \<and>
         error_type e = (if failure_of L only_200 c w w' = RemoteStatusError
                         then ''*errors.errorString'' else ''*fmt.wrapError'')"
proof -
  consider "sent w' = sent w" | rq where "sent w' = sent w @ [rq]"
    using FetchBlocksMarkdown_sent_cases [OF run] by blast
  then show ?thesis
  proof cases
    case 1
    then show ?thesis
      using FetchBlocksMarkdown_not_sent [OF run 1]
      by (auto simp: failure_of_def Errorf_w_def mode_simps)
  next
    case 2
    obtain a rem where rt: "RoundTrip L (HTTPClient c) rq (remote w) = (a, rem)"
      by (cases "RoundTrip L (HTTPClient c) rq (remote w)")
    show ?thesis
      using FetchBlocksMarkdown_answered [OF run 2 rt] 2 rt
      by (auto simp: failure_of_def Errorf_w_def mode_simps only_200_def ok_200_207_def
            unexpected_status_def envelope_then_items_def
            split: sum.splits if_splits option.splits)
  qed
qed

text \<open>\<open>InsertBlocks\<close>: what it sends, and what it makes of the answer.\<close>

lemma InsertBlocks_client: "fst (snd (InsertBlocks L req c w)) = c"
  unfolding InsertBlocks_def
  by (simp add: Let_def split: sum.split prod.split option.split)

lemma InsertBlocks_sent_cases:
  assumes "InsertBlocks L req c w = (res, c', w')"
  shows "sent w' = sent w \<or> (\<exists>rq. sent w' = sent w @ [rq])"
  using assms unfolding InsertBlocks_def
  by (auto simp: Let_def Do_def split: sum.splits prod.splits option.splits if_splits)

lemma InsertBlocks_not_sent:
  assumes "InsertBlocks L req c w = (res, c', w')"
    and "sent w' = sent w"
  shows "\<exists>err. res = Inl (Errorf_w ''marshaling request: '' err)
              \<or> res = Inl (Errorf_w ''creating request: '' err)"
  using assms unfolding InsertBlocks_def
  by (auto simp: Let_def Do_def split: sum.splits prod.splits option.splits if_splits)

lemma InsertBlocks_answered:
  assumes "InsertBlocks L req c w = (res, c', w')"
    and "sent w' = sent w @ [rq]"
    and "RoundTrip L (HTTPClient c) rq (remote w) = (a, rem)"
  shows "res = (case a of
                  Inl err \<Rightarrow> Inl (Errorf_w ''executing request: '' err)
                | Inr resp \<Rightarrow>
                    if StatusCode resp \<noteq> 200 then Inl (unexpected_status resp)
                    else envelope_then_items L ''blocks'' (decode_Block_slice (ParseFloat L)) (resp_Body resp))"
  using assms unfolding InsertBlocks_def
  by (auto simp: Let_def Do_def unexpected_status_def ReadAll_def envelope_then_items_def
        range_assign_ids_map split: sum.splits prod.splits option.splits if_splits)

lemma InsertBlocks_sends:
  assumes "Marshal L (V_InsertRequest req) = Inr jsonData"
    and "NewRequest_check L ''POST'' (BaseURL c @ ''/blocks'') = None"
  shows "sent (snd (snd (InsertBlocks L req c w))) =
         sent w @ [\<lparr>req_Method = ''POST'', req_URL = BaseURL c @ ''/blocks'',
                    req_Header = [(''Content-Type'', ''application/json'')], req_Body = Some jsonData\<rparr>]"
  using assms unfolding InsertBlocks_def
  by (auto simp: Let_def Do_def http_NewRequest_def Header_Set_def split: sum.splits prod.splits option.splits if_splits)

lemma InsertBlocks_mode:
  assumes run: "InsertBlocks L req c w = (Inl e, c', w')"
  shows "mode_of_message (Error e) = Some (failure_of L only_200 c w w') \<and>
         error_type e = (if failure_of L only_200 c w w' = RemoteStatusError
                         then ''*errors.errorString'' else ''*fmt.wrapError'')"
proof -
  consider "sent w' = sent w" | rq where "sent w' = sent w @ [rq]"
    using InsertBlocks_sent_cases [OF run] by blast
  then show ?thesis
  proof cases
    case 1
    then show ?thesis
      using InsertBlocks_not_sent [OF run 1]
      by (auto simp: failure_of_def Errorf_w_def mode_simps)
  next
    case 2
    obtain a rem where rt: "RoundTrip L (HTTPClient c) rq (remote w) = (a, rem)"
      by (cases "RoundTrip L (HTTPClient c) rq (remote w)")
    show ?thesis
      using InsertBlocks_answered [OF run 2 rt] 2 rt
      by (auto simp: failure_of_def Errorf_w_def mode_simps only_200_def ok_200_207_def
            unexpected_status_def envelope_then_items_def
            split: sum.splits if_splits option.splits)
  qed
qed

text \<open>\<open>UpdateBlocks\<close>: what it sends, and what it makes of the answer.\<close>

lemma UpdateBlocks_client: "fst (snd (UpdateBlocks L req c w)) = c"
  unfolding UpdateBlocks_def
  by (simp add: Let_def split: sum.split prod.split option.split)

lemma UpdateBlocks_sent_cases:
  assumes "UpdateBlocks L req c w = (res, c', w')"
  shows "sent w' = sent w \<or> (\<exists>rq. sent w' = sent w @ [rq])"
  using assms unfolding UpdateBlocks_def
  by (auto simp: Let_def Do_def split: sum.splits prod.splits option.splits if_splits)

lemma UpdateBlocks_not_sent:
  assumes "UpdateBlocks L req c w = (res, c', w')"
    and "sent w' = sent w"
  shows "\<exists>err. res = Inl (Errorf_w ''marshaling request: '' err)
              \<or> res = Inl (Errorf_w ''creating request: '' err)"
  using assms unfolding UpdateBlocks_def
  by (auto simp: Let_def Do_def split: sum.splits prod.splits option.splits if_splits)

lemma UpdateBlocks_answered:
  assumes "UpdateBlocks L req c w = (res, c', w')"
    and "sent w' = sent w @ [rq]"
    and "RoundTrip L (HTTPClient c) rq (remote w) = (a, rem)"
  shows "res = (case a of
                  Inl err \<Rightarrow> Inl (Errorf_w ''executing request: '' err)
                | Inr resp \<Rightarrow>
                    if StatusCode resp \<noteq> 200 then Inl (unexpected_status resp)
                    else envelope_then_items L ''blocks'' (decode_Block_slice (ParseFloat L)) (resp_Body resp))"
  using assms unfolding UpdateBlocks_def
  by (auto simp: Let_def Do_def unexpected_status_def ReadAll_def envelope_then_items_def
        range_assign_ids_map split: sum.splits prod.splits option.splits if_splits)

lemma UpdateBlocks_sends:
  assumes "Marshal L (V_UpdateRequest req) = Inr jsonData"
    and "NewRequest_check L ''PUT'' (BaseURL c @ ''/blocks'') = None"
  shows "sent (snd (snd (UpdateBlocks L req c w))) =
         sent w @ [\<lparr>req_Method = ''PUT'', req_URL = BaseURL c @ ''/blocks'',
                    req_Header = [(''Content-Type'', ''application/json'')], req_Body = Some jsonData\<rparr>]"
  using assms unfolding UpdateBlocks_def
  by (auto simp: Let_def Do_def http_NewRequest_def Header_Set_def split: sum.splits prod.splits option.splits if_splits)

lemma UpdateBlocks_mode:
  assumes run: "UpdateBlocks L req c w = (Inl e, c', w')"
  shows "mode_of_message (Error e) = Some (failure_of L only_200 c w w') \<and>
         error_type e = (if failure_of L only_200 c w w' = RemoteStatusError
                         then ''*errors.errorString'' else ''*fmt.wrapError'')"
proof -
  consider "sent w' = sent w" | rq where "sent w' = sent w @ [rq]"
    using UpdateBlocks_sent_cases [OF run] by blast
  then show ?thesis
  proof cases
    case 1
    then show ?thesis
      using UpdateBlocks_not_sent [OF run 1]
      by (auto simp: failure_of_def Errorf_w_def mode_simps)
  next
    case 2
    obtain a rem where rt: "RoundTrip L (HTTPClient c) rq (remote w) = (a, rem)"
      by (cases "RoundTrip L (HTTPClient c) rq (remote w)")
    show ?thesis
      using UpdateBlocks_answered [OF run 2 rt] 2 rt
      by (auto simp: failure_of_def Errorf_w_def mode_simps only_200_def ok_200_207_def
            unexpected_status_def envelope_then_items_def
            split: sum.splits if_splits option.splits)
  qed
qed

text \<open>\<open>DeleteBlocks\<close>: what it sends, and what it makes of the answer.\<close>

lemma DeleteBlocks_client: "fst (snd (DeleteBlocks L blockIDs c w)) = c"
  unfolding DeleteBlocks_def
  by (simp add: Let_def split: sum.split prod.split option.split)

lemma DeleteBlocks_sent_cases:
  assumes "DeleteBlocks L blockIDs c w = (res, c', w')"
  shows "sent w' = sent w \<or> (\<exists>rq. sent w' = sent w @ [rq])"
  using assms unfolding DeleteBlocks_def
  by (auto simp: Let_def Do_def split: sum.splits prod.splits option.splits if_splits)

lemma DeleteBlocks_not_sent:
  assumes "DeleteBlocks L blockIDs c w = (res, c', w')"
    and "sent w' = sent w"
  shows "\<exists>err. res = Inl (Errorf_w ''marshaling request: '' err)
              \<or> res = Inl (Errorf_w ''creating request: '' err)"
  using assms unfolding DeleteBlocks_def
  by (auto simp: Let_def Do_def split: sum.splits prod.splits option.splits if_splits)

lemma DeleteBlocks_answered:
  assumes "DeleteBlocks L blockIDs c w = (res, c', w')"
    and "sent w' = sent w @ [rq]"
    and "RoundTrip L (HTTPClient c) rq (remote w) = (a, rem)"
  shows "res = (case a of
                  Inl err \<Rightarrow> Inl (Errorf_w ''executing request: '' err)
                | Inr resp \<Rightarrow>
                    if StatusCode resp \<noteq> 200 \<and> StatusCode resp \<noteq> 207 then Inl (unexpected_status resp)
                    else map_sum id (map item_ID)
                      (envelope_then_items L ''deleted IDs'' decode_id_items (resp_Body resp)))"
  using assms unfolding DeleteBlocks_def
  by (auto simp: Let_def Do_def unexpected_status_def ReadAll_def envelope_then_items_def
        range_assign_ids_map split: sum.splits prod.splits option.splits if_splits)

lemma DeleteBlocks_sends:
  assumes "Marshal L (V_DeleteRequest \<lparr>DeleteRequest_BlockIDs = blockIDs\<rparr>) = Inr jsonData"
    and "NewRequest_check L ''DELETE'' (BaseURL c @ ''/blocks'') = None"
  shows "sent (snd (snd (DeleteBlocks L blockIDs c w))) =
         sent w @ [\<lparr>req_Method = ''DELETE'', req_URL = BaseURL c @ ''/blocks'',
                    req_Header = [(''Content-Type'', ''application/json'')], req_Body = Some jsonData\<rparr>]"
  using assms unfolding DeleteBlocks_def
  by (auto simp: Let_def Do_def http_NewRequest_def Header_Set_def split: sum.splits prod.splits option.splits if_splits)

lemma DeleteBlocks_mode:
  assumes run: "DeleteBlocks L blockIDs c w = (Inl e, c', w')"
  shows "mode_of_message (Error e) = Some (failure_of L ok_200_207 c w w') \<and>
         error_type e = (if failure_of L ok_200_207 c w w' = RemoteStatusError
                         then ''*errors.errorString'' else ''*fmt.wrapError'')"
proof -
  consider "sent w' = sent w" | rq where "sent w' = sent w @ [rq]"
    using DeleteBlocks_sent_cases [OF run] by blast
  then show ?thesis
  proof cases
    case 1
    then show ?thesis
      using DeleteBlocks_not_sent [OF run 1]
      by (auto simp: failure_of_def Errorf_w_def mode_simps)
  next
    case 2
    obtain a rem where rt: "RoundTrip L (HTTPClient c) rq (remote w) = (a, rem)"
      by (cases "RoundTrip L (HTTPClient c) rq (remote w)")
    show ?thesis
      using DeleteBlocks_answered [OF run 2 rt] 2 rt
      by (auto simp: failure_of_def Errorf_w_def mode_simps only_200_def ok_200_207_def
            unexpected_status_def envelope_then_items_def
            split: sum.splits if_splits option.splits)
  qed
qed

text \<open>\<open>MoveBlocks\<close>: what it sends, and what it makes of the answer.\<close>

lemma MoveBlocks_client: "fst (snd (MoveBlocks L req c w)) = c"
  unfolding MoveBlocks_def
  by (simp add: Let_def split: sum.split prod.split option.split)

lemma MoveBlocks_sent_cases:
  assumes "MoveBlocks L req c w = (res, c', w')"
  shows "sent w' = sent w \<or> (\<exists>rq. sent w' = sent w @ [rq])"
  using assms unfolding MoveBlocks_def
  by (auto simp: Let_def Do_def split: sum.splits prod.splits option.splits if_splits)

lemma MoveBlocks_not_sent:
  assumes "MoveBlocks L req c w = (res, c', w')"
    and "sent w' = sent w"
  shows "\<exists>err. res = Inl (Errorf_w ''marshaling request: '' err)
              \<or> res = Inl (Errorf_w ''creating request: '' err)"
  using assms unfolding MoveBlocks_def
  by (auto simp: Let_def Do_def split: sum.splits prod.splits option.splits if_splits)

lemma MoveBlocks_answered:
  assumes "MoveBlocks L req c w = (res, c', w')"
    and "sent w' = sent w @ [rq]"
    and "RoundTrip L (HTTPClient c) rq (remote w) = (a, rem)"
  shows "res = (case a of
                  Inl err \<Rightarrow> Inl (Errorf_w ''executing request: '' err)
                | Inr resp \<Rightarrow>
                    if StatusCode resp \<noteq> 200 \<and> StatusCode resp \<noteq> 207 then Inl (unexpected_status resp)
                    else map_sum id (map item_ID)
                      (envelope_then_items L ''moved IDs'' decode_id_items (resp_Body resp)))"
  using assms unfolding MoveBlocks_def
  by (auto simp: Let_def Do_def unexpected_status_def ReadAll_def envelope_then_items_def
        range_assign_ids_map split: sum.splits prod.splits option.splits if_splits)

lemma MoveBlocks_sends:
  assumes "Marshal L (V_MoveRequest req) = Inr jsonData"
    and "NewRequest_check L ''PUT'' (BaseURL c @ ''/blocks/move'') = None"
  shows "sent (snd (snd (MoveBlocks L req c w))) =
         sent w @ [\<lparr>req_Method = ''PUT'', req_URL = BaseURL c @ ''/blocks/move'',
                    req_Header = [(''Content-Type'', ''application/json'')], req_Body = Some jsonData\<rparr>]"
  using assms unfolding MoveBlocks_def
  by (auto simp: Let_def Do_def http_NewRequest_def Header_Set_def split: sum.splits prod.splits option.splits if_splits)

lemma MoveBlocks_mode:
  assumes run: "MoveBlocks L req c w = (Inl e, c', w')"
  shows "mode_of_message (Error e) = Some (failure_of L ok_200_207 c w w') \<and>
         error_type e = (if failure_of L ok_200_207 c w w' = RemoteStatusError
                         then ''*errors.errorString'' else ''*fmt.wrapError'')"
proof -
  consider "sent w' = sent w" | rq where "sent w' = sent w @ [rq]"
    using MoveBlocks_sent_cases [OF run] by blast
  then show ?thesis
  proof cases
    case 1
    then show ?thesis
      using MoveBlocks_not_sent [OF run 1]
      by (auto simp: failure_of_def Errorf_w_def mode_simps)
  next
    case 2
    obtain a rem where rt: "RoundTrip L (HTTPClient c) rq (remote w) = (a, rem)"
      by (cases "RoundTrip L (HTTPClient c) rq (remote w)")
    show ?thesis
      using MoveBlocks_answered [OF run 2 rt] 2 rt
      by (auto simp: failure_of_def Errorf_w_def mode_simps only_200_def ok_200_207_def
            unexpected_status_def envelope_then_items_def
            split: sum.splits if_splits option.splits)
  qed
qed

text \<open>\<open>Search\<close>: what it sends, and what it makes of the answer.\<close>

lemma Search_client: "fst (snd (Search L pattern caseSensitive beforeCount afterCount c w)) = c"
  unfolding Search_reqURL_intro
  by (simp add: Let_def split: sum.split prod.split option.split)

lemma Search_sent_cases:
  assumes "Search L pattern caseSensitive beforeCount afterCount c w = (res, c', w')"
  shows "sent w' = sent w \<or> (\<exists>rq. sent w' = sent w @ [rq])"
  using assms unfolding Search_reqURL_intro
  by (auto simp: Let_def Do_def split: sum.splits prod.splits option.splits if_splits)

lemma Search_not_sent:
  assumes "Search L pattern caseSensitive beforeCount afterCount c w = (res, c', w')"
    and "sent w' = sent w"
  shows "\<exists>err. res = Inl (Errorf_w ''creating request: '' err)"
  using assms unfolding Search_reqURL_intro
  by (auto simp: Let_def Do_def split: sum.splits prod.splits option.splits if_splits)

lemma Search_answered:
  assumes "Search L pattern caseSensitive beforeCount afterCount c w = (res, c', w')"
    and "sent w' = sent w @ [rq]"
    and "RoundTrip L (HTTPClient c) rq (remote w) = (a, rem)"
  shows "res = (case a of
                  Inl err \<Rightarrow> Inl (Errorf_w ''executing request: '' err)
                | Inr resp \<Rightarrow>
                    if StatusCode resp \<noteq> 200 then Inl (unexpected_status resp)
                    else envelope_then_items L ''search results'' decode_SearchMatches (resp_Body resp))"
  using assms unfolding Search_reqURL_intro
  by (auto simp: Let_def Do_def unexpected_status_def ReadAll_def envelope_then_items_def
        range_assign_ids_map split: sum.splits prod.splits option.splits if_splits)


lemma Search_mode:
  assumes run: "Search L pattern caseSensitive beforeCount afterCount c w = (Inl e, c', w')"
  shows "mode_of_message (Error e) = Some (failure_of L only_200 c w w') \<and>
         error_type e = (if failure_of L only_200 c w w' = RemoteStatusError
                         then ''*errors.errorString'' else ''*fmt.wrapError'')"
proof -
  consider "sent w' = sent w" | rq where "sent w' = sent w @ [rq]"
    using Search_sent_cases [OF run] by blast
  then show ?thesis
  proof cases
    case 1
    then show ?thesis
      using Search_not_sent [OF run 1]
      by (auto simp: failure_of_def Errorf_w_def mode_simps)
  next
    case 2
    obtain a rem where rt: "RoundTrip L (HTTPClient c) rq (remote w) = (a, rem)"
      by (cases "RoundTrip L (HTTPClient c) rq (remote w)")
    show ?thesis
      using Search_answered [OF run 2 rt] 2 rt
      by (auto simp: failure_of_def Errorf_w_def mode_simps only_200_def ok_200_207_def
            unexpected_status_def envelope_then_items_def
            split: sum.splits if_splits option.splits)
  qed
qed

text \<open>\<open>GenerateUploadURL\<close>: what it sends, and what it makes of the answer.\<close>

lemma GenerateUploadURL_client: "fst (snd (GenerateUploadURL L fileName mimeType c w)) = c"
  unfolding GenerateUploadURL_def
  by (simp add: Let_def split: sum.split prod.split option.split)

lemma GenerateUploadURL_sent_cases:
  assumes "GenerateUploadURL L fileName mimeType c w = (res, c', w')"
  shows "sent w' = sent w \<or> (\<exists>rq. sent w' = sent w @ [rq])"
  using assms unfolding GenerateUploadURL_def
  by (auto simp: Let_def Do_def split: sum.splits prod.splits option.splits if_splits)

lemma GenerateUploadURL_not_sent:
  assumes "GenerateUploadURL L fileName mimeType c w = (res, c', w')"
    and "sent w' = sent w"
  shows "\<exists>err. res = Inl (Errorf_w ''marshaling request: '' err)
              \<or> res = Inl (Errorf_w ''creating request: '' err)"
  using assms unfolding GenerateUploadURL_def
  by (auto simp: Let_def Do_def split: sum.splits prod.splits option.splits if_splits)

lemma GenerateUploadURL_answered:
  assumes "GenerateUploadURL L fileName mimeType c w = (res, c', w')"
    and "sent w' = sent w @ [rq]"
    and "RoundTrip L (HTTPClient c) rq (remote w) = (a, rem)"
  shows "res = (case a of
                  Inl err \<Rightarrow> Inl (Errorf_w ''executing request: '' err)
                | Inr resp \<Rightarrow>
                    if StatusCode resp \<noteq> 200 then Inl (unexpected_status resp)
                    else (case Decode_UploadLinkResponse L (resp_Body resp) of
                       Inl err \<Rightarrow> Inl (Errorf_w ''decoding response: '' err)
                     | Inr uploadResp \<Rightarrow> Inr uploadResp))"
  using assms unfolding GenerateUploadURL_def
  by (auto simp: Let_def Do_def unexpected_status_def ReadAll_def envelope_then_items_def
        range_assign_ids_map split: sum.splits prod.splits option.splits if_splits)

lemma GenerateUploadURL_sends:
  assumes "Marshal L (V_UploadLinkRequest
          \<lparr>UploadLinkRequest_FileName = fileName, UploadLinkRequest_MimeType = mimeType\<rparr>) = Inr jsonData"
    and "NewRequest_check L ''POST'' (BaseURL c @ ''/upload-link'') = None"
  shows "sent (snd (snd (GenerateUploadURL L fileName mimeType c w))) =
         sent w @ [\<lparr>req_Method = ''POST'', req_URL = BaseURL c @ ''/upload-link'',
                    req_Header = [(''Content-Type'', ''application/json'')], req_Body = Some jsonData\<rparr>]"
  using assms unfolding GenerateUploadURL_def
  by (auto simp: Let_def Do_def http_NewRequest_def Header_Set_def split: sum.splits prod.splits option.splits if_splits)

lemma GenerateUploadURL_mode:
  assumes run: "GenerateUploadURL L fileName mimeType c w = (Inl e, c', w')"
  shows "mode_of_message (Error e) = Some (failure_of L only_200 c w w') \<and>
         error_type e = (if failure_of L only_200 c w w' = RemoteStatusError
                         then ''*errors.errorString'' else ''*fmt.wrapError'')"
proof -
  consider "sent w' = sent w" | rq where "sent w' = sent w @ [rq]"
    using GenerateUploadURL_sent_cases [OF run] by blast
  then show ?thesis
  proof cases
    case 1
    then show ?thesis
      using GenerateUploadURL_not_sent [OF run 1]
      by (auto simp: failure_of_def Errorf_w_def mode_simps)
  next
    case 2
    obtain a rem where rt: "RoundTrip L (HTTPClient c) rq (remote w) = (a, rem)"
      by (cases "RoundTrip L (HTTPClient c) rq (remote w)")
    show ?thesis
      using GenerateUploadURL_answered [OF run 2 rt] 2 rt
      by (auto simp: failure_of_def Errorf_w_def mode_simps only_200_def ok_200_207_def
            unexpected_status_def envelope_then_items_def
            split: sum.splits if_splits option.splits)
  qed
qed
section \<open>Facts about decoding\<close>

text \<open>An envelope whose only member is \<open>items\<close>, and an array of \<open>{"id": s}\<close> objects.\<close>

lemma Decode_ItemsResponse_items:
  "Scan L b = Inr (JObject [(''items'', v)]) \<Longrightarrow> Decode_ItemsResponse L b = Inr \<lparr>Items = Some v\<rparr>"
  by (simp add: Decode_ItemsResponse_def decode_struct_def ItemsResponse_field_def fieldMatch_def)



text \<open>FetchBlocksMarkdown builds its URL as FetchBlocks does without the metadata flag.\<close>

lemma FetchBlocksMarkdown_reqURL_as_FetchBlocks:
  "FetchBlocksMarkdown_reqURL c i d = FetchBlocks_reqURL c i d False"
  by (simp add: FetchBlocksMarkdown_reqURL_closed FetchBlocks_reqURL_closed)

text \<open>The members of an object are decoded one after the other; a last \<open>width\<close> member.\<close>

lemma decode_Block_members_append:
  "decode_Block_members pf (kvs @ kvs') b =
     (case decode_Block_members pf kvs b of
        Inl err \<Rightarrow> Inl err
      | Inr b' \<Rightarrow> decode_Block_members pf kvs' b')"
proof (induction kvs arbitrary: b)
  case Nil
  show ?case by simp
next
  case (Cons kv kvs)
  obtain k v where kv: "kv = (k, v)" by (cases kv)
  show ?case
    unfolding kv using Cons.IH by (simp split: sum.splits)
qed

lemma decode_Block_width_member:
  "decode_Block_members pf [(''width'', v)] b = assign (decode_any pf v) set_Block_Width b"
  by (simp add: fieldMatch_def fold_byte_def Block_field_def assign_def split: sum.splits)

lemma Block_Width_set: "Block_Width (set_Block_Width x b) = x"
  by (simp add: set_Block_Width_def)

text \<open>An envelope with an empty \<open>items\<close> array decodes to no blocks.\<close>

lemma envelope_of_no_blocks:
  assumes "Scan L b = Inr (JObject [(''items'', JArray [])])"
  shows "envelope_then_items L what (decode_Block_slice pf) b = Inr []"
  using Decode_ItemsResponse_items [OF assms]
  by (simp add: envelope_then_items_def Unmarshal_raw_def decode_Block_slice_def)

text \<open>Storing the width leaves the other fields alone, and commutes with storing them.\<close>

lemma Block_Width_other_fields:
  "Block_ID (set_Block_Width x b) = Block_ID b"
  "Block_Type (set_Block_Width x b) = Block_Type b"
  "Block_TextStyle (set_Block_Width x b) = Block_TextStyle b"
  "Block_Markdown (set_Block_Width x b) = Block_Markdown b"
  "Block_Content (set_Block_Width x b) = Block_Content b"
  "Block_IndentationLevel (set_Block_Width x b) = Block_IndentationLevel b"
  "Block_ListStyle (set_Block_Width x b) = Block_ListStyle b"
  "Block_Font (set_Block_Width x b) = Block_Font b"
  "Block_Color (set_Block_Width x b) = Block_Color b"
  "Block_URL (set_Block_Width x b) = Block_URL b"
  "Block_AltText (set_Block_Width x b) = Block_AltText b"
  "Block_Height (set_Block_Width x b) = Block_Height b"
  "Block_FileName (set_Block_Width x b) = Block_FileName b"
  "Block_MimeType (set_Block_Width x b) = Block_MimeType b"
  "Block_FileSize (set_Block_Width x b) = Block_FileSize b"
  by (cases b; simp add: set_Block_Width_def)+

lemma set_Block_Width_commute:
  "set_Block_ID y0 (set_Block_Width x b) = set_Block_Width x (set_Block_ID y0 b)"
  "set_Block_Type y1 (set_Block_Width x b) = set_Block_Width x (set_Block_Type y1 b)"
  "set_Block_TextStyle y2 (set_Block_Width x b) = set_Block_Width x (set_Block_TextStyle y2 b)"
  "set_Block_Markdown y3 (set_Block_Width x b) = set_Block_Width x (set_Block_Markdown y3 b)"
  "set_Block_Content y4 (set_Block_Width x b) = set_Block_Width x (set_Block_Content y4 b)"
  "set_Block_IndentationLevel y5 (set_Block_Width x b) = set_Block_Width x (set_Block_IndentationLevel y5 b)"
  "set_Block_ListStyle y6 (set_Block_Width x b) = set_Block_Width x (set_Block_ListStyle y6 b)"
  "set_Block_Font y7 (set_Block_Width x b) = set_Block_Width x (set_Block_Font y7 b)"
  "set_Block_Color y8 (set_Block_Width x b) = set_Block_Width x (set_Block_Color y8 b)"
  "set_Block_URL y9 (set_Block_Width x b) = set_Block_Width x (set_Block_URL y9 b)"
  "set_Block_AltText y10 (set_Block_Width x b) = set_Block_Width x (set_Block_AltText y10 b)"
  "set_Block_Height y11 (set_Block_Width x b) = set_Block_Width x (set_Block_Height y11 b)"
  "set_Block_FileName y12 (set_Block_Width x b) = set_Block_Width x (set_Block_FileName y12 b)"
  "set_Block_MimeType y13 (set_Block_Width x b) = set_Block_Width x (set_Block_MimeType y13 b)"
  "set_Block_FileSize y14 (set_Block_Width x b) = set_Block_Width x (set_Block_FileSize y14 b)"
  by (cases b; simp add:
      set_Block_ID_def set_Block_Type_def set_Block_TextStyle_def set_Block_Markdown_def
      set_Block_Content_def set_Block_IndentationLevel_def set_Block_ListStyle_def
      set_Block_Font_def set_Block_Color_def set_Block_URL_def set_Block_AltText_def set_Block_Width_def
      set_Block_Height_def set_Block_FileName_def set_Block_MimeType_def set_Block_FileSize_def)+

lemma assign_commute:
  assumes "\<And>y. setter y (g b) = g (setter y b)"
  shows "assign r setter (g b) = map_sum id g (assign r setter b)"
  using assms by (cases r) (simp_all add: assign_def)

lemma Block_field_Width_commute:
  assumes "\<not> fieldMatch k ''width''"
  shows "Block_field pf k v (set_Block_Width x b)
           = map_sum id (set_Block_Width x) (Block_field pf k v b)"
  using assms
  by (simp add: Block_field_def Block_Width_other_fields assign_commute set_Block_Width_commute)


lemma decode_Block_members_Width_commute:
  assumes "\<forall>(k, v)\<in>set kvs. \<not> fieldMatch k ''width''"
  shows "decode_Block_members pf kvs (set_Block_Width x b)
           = map_sum id (set_Block_Width x) (decode_Block_members pf kvs b)"
  using assms
proof (induction kvs arbitrary: b)
  case Nil
  show ?case by simp
next
  case (Cons kv kvs)
  obtain k v where kv: "kv = (k, v)" by (cases kv)
  have nk: "\<not> fieldMatch k ''width''"
    and rest: "\<forall>(k, v)\<in>set kvs. \<not> fieldMatch k ''width''"
    using Cons.prems kv by auto
  note IH = Cons.IH [OF rest]
  show ?case
  proof (cases "fieldMatch k ''content''")
    case False
    then show ?thesis
      unfolding kv
      by (cases "Block_field pf k v b")
         (simp_all add: Block_field_Width_commute [OF nk] IH)
  next
    case True
    show ?thesis
    proof (cases v)
      case (JArray js)
      then show ?thesis
        unfolding kv using True
        by (cases "decode_Block_elems pf js (Block_Content b)")
           (simp_all add: Block_Width_other_fields assign_def set_Block_Width_commute IH)
    qed (simp_all add: kv True set_Block_Width_commute IH)
  qed
qed

section \<open>The claims\<close>

text \<open>
  C1. Once a request has been sent and the transport has answered it with a response:
  DeleteBlocks and MoveBlocks accept status 200 and status 207 alike (the call goes on
  to decode the body and never ends in the unexpected-status error), and for every other
  status they return the error
  \<open>unexpected status CODE: BODY\<close> made of the numeric status code and the raw body;
  FetchBlocks, FetchBlocksMarkdown, InsertBlocks, UpdateBlocks, Search and
  GenerateUploadURL accept status 200 only, so for them 207 too ends in that error.
\<close>

theorem status_acceptance:
  assumes "sent w' = sent w @ [rq]"
    and "RoundTrip L (HTTPClient c) rq (remote w) = (Inr resp, rem)"
  shows
    "(\<forall>blockIDs r. DeleteBlocks L blockIDs c w = (r, c', w')
        \<longrightarrow> accepted_or_refused ok_200_207 resp r) \<and>
     (\<forall>req r. MoveBlocks L req c w = (r, c', w')
        \<longrightarrow> accepted_or_refused ok_200_207 resp r) \<and>
     (\<forall>id' maxDepth fetchMetadata r. FetchBlocks L id' maxDepth fetchMetadata c w = (r, c', w')
        \<longrightarrow> accepted_or_refused only_200 resp r) \<and>
     (\<forall>id' maxDepth r. FetchBlocksMarkdown L id' maxDepth c w = (r, c', w')
        \<longrightarrow> accepted_or_refused only_200 resp r) \<and>
     (\<forall>req r. InsertBlocks L req c w = (r, c', w')
        \<longrightarrow> accepted_or_refused only_200 resp r) \<and>
     (\<forall>req r. UpdateBlocks L req c w = (r, c', w')
        \<longrightarrow> accepted_or_refused only_200 resp r) \<and>
     (\<forall>pattern caseSensitive beforeCount afterCount r.
        Search L pattern caseSensitive beforeCount afterCount c w = (r, c', w')
        \<longrightarrow> accepted_or_refused only_200 resp r) \<and>
     (\<forall>fileName mimeType r. GenerateUploadURL L fileName mimeType c w = (r, c', w')
        \<longrightarrow> accepted_or_refused only_200 resp r)"
proof -
  note facts = assms(1) assms(2)
  have del: "accepted_or_refused ok_200_207 resp r"
    if "DeleteBlocks L blockIDs c w = (r, c', w')" for blockIDs r
    using DeleteBlocks_answered [OF that facts]
    by (auto simp: accepted_or_refused_def ok_200_207_def envelope_then_items_def Errorf_w_def
          mode_simps split: sum.splits)
  have mov: "accepted_or_refused ok_200_207 resp r"
    if "MoveBlocks L req c w = (r, c', w')" for req r
    using MoveBlocks_answered [OF that facts]
    by (auto simp: accepted_or_refused_def ok_200_207_def envelope_then_items_def Errorf_w_def
          mode_simps split: sum.splits)
  have fet: "accepted_or_refused only_200 resp r"
    if "FetchBlocks L id' maxDepth fetchMetadata c w = (r, c', w')"
    for id' maxDepth fetchMetadata r
    using FetchBlocks_answered [OF that facts]
    by (auto simp: accepted_or_refused_def only_200_def Errorf_w_def mode_simps
          split: sum.splits)
  have fmd: "accepted_or_refused only_200 resp r"
    if "FetchBlocksMarkdown L id' maxDepth c w = (r, c', w')" for id' maxDepth r
    using FetchBlocksMarkdown_answered [OF that facts]
    by (auto simp: accepted_or_refused_def only_200_def Errorf_w_def mode_simps
          split: option.splits)
  have ins: "accepted_or_refused only_200 resp r"
    if "InsertBlocks L req c w = (r, c', w')" for req r
    using InsertBlocks_answered [OF that facts]
    by (auto simp: accepted_or_refused_def only_200_def envelope_then_items_def Errorf_w_def
          mode_simps split: sum.splits)
  have upd: "accepted_or_refused only_200 resp r"
    if "UpdateBlocks L req c w = (r, c', w')" for req r
    using UpdateBlocks_answered [OF that facts]
    by (auto simp: accepted_or_refused_def only_200_def envelope_then_items_def Errorf_w_def
          mode_simps split: sum.splits)
  have sea: "accepted_or_refused only_200 resp r"
    if "Search L pattern caseSensitive beforeCount afterCount c w = (r, c', w')"
    for pattern caseSensitive beforeCount afterCount r
    using Search_answered [OF that facts]
    by (auto simp: accepted_or_refused_def only_200_def envelope_then_items_def Errorf_w_def
          mode_simps split: sum.splits)
  have upl: "accepted_or_refused only_200 resp r"
    if "GenerateUploadURL L fileName mimeType c w = (r, c', w')" for fileName mimeType r
    using GenerateUploadURL_answered [OF that facts]
    by (auto simp: accepted_or_refused_def only_200_def Errorf_w_def mode_simps
          split: sum.splits)
  show ?thesis
    using del mov fet fmd ins upd sea upl by blast
qed

theorem status_acceptance_witness:
  "DeleteBlocks example_lib (Some [''a'', ''b'', ''zz'']) example_client
       (world_with [answer 207 two_ids_document])
     = (Inr [''b'', ''a''], example_client,
        \<lparr>sent = [\<lparr>req_Method = ''DELETE'', req_URL = ''https://example.test/api/v1/blocks'',
                   req_Header = [(''Content-Type'', ''application/json'')],
                   req_Body = Some abz_DeleteRequest_text\<rparr>],
         remote = []\<rparr>) \<and>
   accepted_or_refused ok_200_207
     \<lparr>StatusCode = 207, resp_Body = plain_body two_ids_document\<rparr>
     (Inr [''b'', ''a''] :: go_error + string list) \<and>
   ok_200_207 207 \<and> \<not> only_200 207"
proof -
  let ?rq = "\<lparr>req_Method = ''DELETE'', req_URL = ''https://example.test/api/v1/blocks'',
               req_Header = [(''Content-Type'', ''application/json'')],
               req_Body = Some abz_DeleteRequest_text\<rparr>"
  let ?w = "world_with [answer 207 two_ids_document]"
  let ?w' = "\<lparr>sent = [?rq], remote = ([] :: (go_error + response) list)\<rparr>"
  let ?resp = "\<lparr>StatusCode = 207, resp_Body = plain_body two_ids_document\<rparr>"
  have run: "DeleteBlocks example_lib (Some [''a'', ''b'', ''zz'']) example_client ?w
               = (Inr [''b'', ''a''], example_client, ?w')"
    by code_simp
  have s: "sent ?w' = sent ?w @ [?rq]"
    by (simp add: world_with_def)
  have rt: "RoundTrip example_lib (HTTPClient example_client) ?rq (remote ?w) = (Inr ?resp, [])"
    by (simp add: example_lib_def script_RoundTrip_def world_with_def answer_def)
  have "accepted_or_refused ok_200_207 ?resp (Inr [''b'', ''a''] :: go_error + string list)"
    by (rule status_acceptance [OF s rt, THEN conjunct1, rule_format, OF run])
  then show ?thesis
    using run by (simp add: ok_200_207_def only_200_def)
qed



text \<open>
  C3, as stated, fails: the failure modes do not come as distinct error types. A request
  that cannot be built (construction failure) and a request that cannot be delivered
  (transport failure) both surface as a \<open>*fmt.wrapError\<close>; only their message texts differ.
\<close>

theorem failure_modes_share_a_type:
  "fst (FetchBlocks example_lib '''' 0 False newline_client (world_with []))
     = Inl (wrapError ''creating request: net/url: invalid control character in URL''
              (libError ''*url.Error'' ''net/url: invalid control character in URL'')) \<and>
   failure_of example_lib only_200 newline_client (world_with [])
     (snd (snd (FetchBlocks example_lib '''' 0 False newline_client (world_with []))))
     = ConstructionError \<and>
   fst (FetchBlocks example_lib '''' 0 False example_client (world_with []))
     = Inl (wrapError ''executing request: dial tcp: connection refused''
              (libError ''*url.Error'' ''dial tcp: connection refused'')) \<and>
   failure_of example_lib only_200 example_client (world_with [])
     (snd (snd (FetchBlocks example_lib '''' 0 False example_client (world_with []))))
     = TransportError \<and>
   error_type (wrapError ''creating request: net/url: invalid control character in URL''
                 (libError ''*url.Error'' ''net/url: invalid control character in URL''))
     = error_type (wrapError ''executing request: dial tcp: connection refused''
                     (libError ''*url.Error'' ''dial tcp: connection refused''))"
  by code_simp

text \<open>
  C3, amended. Whenever one of the eight operations returns an error, the prefix of the
  error's message tells which of the four failure modes the call ran into: construction
  (\<open>marshaling request: \<close> or \<open>creating request: \<close>, nothing was sent), transport
  (\<open>executing request: \<close>), non-success status (\<open>unexpected status \<close>), decode
  (\<open>decoding response: \<close>, \<open>unmarshaling ...\<close> or \<open>reading response: \<close>). The errors are
  not of distinct types: the status failure is an \<open>*errors.errorString\<close>, the three others
  are all \<open>*fmt.wrapError\<close>.
\<close>

theorem failure_modes_by_message:
  "(\<forall>id' maxDepth fetchMetadata e c' w'.
      FetchBlocks L id' maxDepth fetchMetadata c w = (Inl e, c', w') \<longrightarrow>
      mode_of_message (Error e) = Some (failure_of L only_200 c w w') \<and>
      error_type e = (if failure_of L only_200 c w w' = RemoteStatusError
                      then ''*errors.errorString'' else ''*fmt.wrapError'')) \<and>
   (\<forall>id' maxDepth e c' w'.
      FetchBlocksMarkdown L id' maxDepth c w = (Inl e, c', w') \<longrightarrow>
      mode_of_message (Error e) = Some (failure_of L only_200 c w w') \<and>
      error_type e = (if failure_of L only_200 c w w' = RemoteStatusError
                      then ''*errors.errorString'' else ''*fmt.wrapError'')) \<and>
   (\<forall>req e c' w'.
      InsertBlocks L req c w = (Inl e, c', w') \<longrightarrow>
      mode_of_message (Error e) = Some (failure_of L only_200 c w w') \<and>
      error_type e = (if failure_of L only_200 c w w' = RemoteStatusError
                      then ''*errors.errorString'' else ''*fmt.wrapError'')) \<and>
   (\<forall>req e c' w'.
      UpdateBlocks L req c w = (Inl e, c', w') \<longrightarrow>
      mode_of_message (Error e) = Some (failure_of L only_200 c w w') \<and>
      error_type e = (if failure_of L only_200 c w w' = RemoteStatusError
                      then ''*errors.errorString'' else ''*fmt.wrapError'')) \<and>
   (\<forall>blockIDs e c' w'.
      DeleteBlocks L blockIDs c w = (Inl e, c', w') \<longrightarrow>
      mode_of_message (Error e) = Some (failure_of L ok_200_207 c w w') \<and>
      error_type e = (if failure_of L ok_200_207 c w w' = RemoteStatusError
                      then ''*errors.errorString'' else ''*fmt.wrapError'')) \<and>
   (\<forall>req e c' w'.
      MoveBlocks L req c w = (Inl e, c', w') \<longrightarrow>
      mode_of_message (Error e) = Some (failure_of L ok_200_207 c w w') \<and>
      error_type e = (if failure_of L ok_200_207 c w w' = RemoteStatusError
                      then ''*errors.errorString'' else ''*fmt.wrapError'')) \<and>
   (\<forall>pattern caseSensitive beforeCount afterCount e c' w'.
      Search L pattern caseSensitive beforeCount afterCount c w = (Inl e, c', w') \<longrightarrow>
      mode_of_message (Error e) = Some (failure_of L only_200 c w w') \<and>
      error_type e = (if failure_of L only_200 c w w' = RemoteStatusError
                      then ''*errors.errorString'' else ''*fmt.wrapError'')) \<and>
   (\<forall>fileName mimeType e c' w'.
      GenerateUploadURL L fileName mimeType c w = (Inl e, c', w') \<longrightarrow>
      mode_of_message (Error e) = Some (failure_of L only_200 c w w') \<and>
      error_type e = (if failure_of L only_200 c w w' = RemoteStatusError
                      then ''*errors.errorString'' else ''*fmt.wrapError''))"
  by (intro conjI allI impI;
      (erule FetchBlocks_mode [THEN conjunct1] | erule FetchBlocks_mode [THEN conjunct2]
       | erule FetchBlocksMarkdown_mode [THEN conjunct1]
       | erule FetchBlocksMarkdown_mode [THEN conjunct2]
       | erule InsertBlocks_mode [THEN conjunct1] | erule InsertBlocks_mode [THEN conjunct2]
       | erule UpdateBlocks_mode [THEN conjunct1] | erule UpdateBlocks_mode [THEN conjunct2]
       | erule DeleteBlocks_mode [THEN conjunct1] | erule DeleteBlocks_mode [THEN conjunct2]
       | erule MoveBlocks_mode [THEN conjunct1] | erule MoveBlocks_mode [THEN conjunct2]
       | erule Search_mode [THEN conjunct1] | erule Search_mode [THEN conjunct2]
       | erule GenerateUploadURL_mode [THEN conjunct1]
       | erule GenerateUploadURL_mode [THEN conjunct2]))

theorem failure_modes_by_message_witness:
  "InsertBlocks example_lib hello_InsertRequest example_client
       (world_with [answer 503 ''upstream down''])
     = (Inl (errorString ''unexpected status 503: upstream down''), example_client,
        \<lparr>sent = [\<lparr>req_Method = ''POST'', req_URL = ''https://example.test/api/v1/blocks'',
                   req_Header = [(''Content-Type'', ''application/json'')],
                   req_Body = Some hello_InsertRequest_text\<rparr>],
         remote = []\<rparr>) \<and>
   mode_of_message (Error (errorString ''unexpected status 503: upstream down''))
     = Some RemoteStatusError \<and>
   failure_of example_lib only_200 example_client (world_with [answer 503 ''upstream down''])
     \<lparr>sent = [\<lparr>req_Method = ''POST'', req_URL = ''https://example.test/api/v1/blocks'',
                req_Header = [(''Content-Type'', ''application/json'')],
                req_Body = Some hello_InsertRequest_text\<rparr>],
      remote = []\<rparr> = RemoteStatusError"
proof -
  let ?w' = "\<lparr>sent = [\<lparr>req_Method = ''POST'', req_URL = ''https://example.test/api/v1/blocks'',
                req_Header = [(''Content-Type'', ''application/json'')],
                req_Body = Some hello_InsertRequest_text\<rparr>],
      remote = ([] :: (go_error + response) list)\<rparr>"
  have run: "InsertBlocks example_lib hello_InsertRequest example_client
               (world_with [answer 503 ''upstream down''])
             = (Inl (errorString ''unexpected status 503: upstream down''), example_client, ?w')"
    by code_simp
  have f: "failure_of example_lib only_200 example_client
             (world_with [answer 503 ''upstream down'']) ?w' = RemoteStatusError"
    by code_simp
  have "mode_of_message (Error (errorString ''unexpected status 503: upstream down''))
          = Some (failure_of example_lib only_200 example_client
                    (world_with [answer 503 ''upstream down'']) ?w')"
    by (rule failure_modes_by_message [THEN conjunct2, THEN conjunct2, THEN conjunct1,
          rule_format, OF run, THEN conjunct1])
  then show ?thesis
    using run f by simp
qed





text \<open>
  C6, at an input where the handler does not do what the claim says. A POST with body
  \<open>{"query":"Hello"}\<close>; the remote answers the fetch with the root block \<open>0\<close> and the
  insert with status 200 and \<open>{"items":[]}\<close>. Both remote calls succeed, the fetch first
  and then the insert of \<open>Hello\<close> at the end of page \<open>0\<close>, yet the handler writes no
  \<open>{"status":"created", ...}\<close> response and no error response: it panics. With one block
  in the answer it responds as the claim says.
\<close>

theorem handler_panics_on_empty_insert_result:
  "handleCraftHackathon example_lib new_ResponseWriter post_query
       (world_with [answer 200 root_document, answer 200 no_items_document])
     = (Panicked ''runtime error: index out of range [0] with length 0'',
        \<lparr>sent = [\<lparr>req_Method = ''GET'',
                   req_URL = ''https://connect.craft.do/links/3tXZdMX0EIe/api/v1/blocks?maxDepth=0'',
                   req_Header = [(''Accept'', ''application/json'')], req_Body = None\<rparr>,
                 \<lparr>req_Method = ''POST'',
                   req_URL = ''https://connect.craft.do/links/3tXZdMX0EIe/api/v1/blocks'',
                   req_Header = [(''Content-Type'', ''application/json'')],
                   req_Body = Some hello_InsertRequest_text\<rparr>],
         remote = []\<rparr>) \<and>
   InsertBlocks example_lib hello_InsertRequest (NewClient main_BaseURL)
       \<lparr>sent = [], remote = [answer 200 no_items_document]\<rparr>
     = (Inr [], NewClient main_BaseURL,
        \<lparr>sent = [\<lparr>req_Method = ''POST'',
                   req_URL = ''https://connect.craft.do/links/3tXZdMX0EIe/api/v1/blocks'',
                   req_Header = [(''Content-Type'', ''application/json'')],
                   req_Body = Some hello_InsertRequest_text\<rparr>],
         remote = []\<rparr>) \<and>
   fst (handleCraftHackathon example_lib new_ResponseWriter post_query
          (world_with [answer 200 root_document, answer 200 one_block_document]))
     = Returned \<lparr>rw_Header = [(''Content-Type'', ''application/json'')], rw_Status = Some 200,
                 rw_Body = created_text @ [CHR 0x0A]\<rparr>"
  by code_simp

text \<open>
  C7. FetchBlocksMarkdown builds a GET request for \<open>BaseURL/blocks\<close> with header
  \<open>Accept: text/markdown\<close> and no body; its query string holds \<open>id\<close> exactly when the given
  id is not empty and \<open>maxDepth\<close> exactly when the given depth is not \<open>-1\<close>, and never
  \<open>fetchMetadata\<close>: it is the URL FetchBlocks builds with the flag off. When that request is
  answered with status 200 and the body is read to its end, the result is the body's
  bytes, unchanged.
\<close>

theorem FetchBlocksMarkdown_request_and_result:
  assumes "FetchBlocksMarkdown L id' maxDepth c w = (r, c', w')"
    and "url = BaseURL c @ ''/blocks'' @
               query_suffix ((if id' \<noteq> '''' then [''id='' @ QueryEscape id'] else []) @
                             (if maxDepth \<noteq> - 1 then [''maxDepth='' @ Itoa maxDepth] else []))"
    and "rq = \<lparr>req_Method = ''GET'', req_URL = url,
               req_Header = [(''Accept'', ''text/markdown'')], req_Body = None\<rparr>"
    and "NewRequest_check L ''GET'' url = None"
  shows "sent w' = sent w @ [rq] \<and>
         url = FetchBlocks_reqURL c id' maxDepth False \<and>
         (\<forall>resp rem. RoundTrip L (HTTPClient c) rq (remote w) = (Inr resp, rem) \<longrightarrow>
            StatusCode resp = 200 \<longrightarrow> body_err (resp_Body resp) = None \<longrightarrow>
            r = Inr (body_data (resp_Body resp)))"
proof -
  have u: "url = FetchBlocksMarkdown_reqURL c id' maxDepth"
    using assms(2) by (simp only: FetchBlocksMarkdown_reqURL_closed)
  have s: "sent w' = sent w @ [rq]"
    using FetchBlocksMarkdown_sends [of L c id' maxDepth w] assms(1,3,4) u by simp
  have "r = Inr (body_data (resp_Body resp))"
    if "RoundTrip L (HTTPClient c) rq (remote w) = (Inr resp, rem)" "StatusCode resp = 200"
      "body_err (resp_Body resp) = None"
    for resp rem
    using FetchBlocksMarkdown_answered [OF assms(1) s that(1)] that(2,3) by simp
  with s u show ?thesis
    by (simp only: FetchBlocksMarkdown_reqURL_as_FetchBlocks) blast
qed

theorem FetchBlocksMarkdown_request_and_result_witness:
  "FetchBlocksMarkdown example_lib ''7'' (- 1) example_client
       (world_with [answer 200 ''# Doc <page>x</page>''])
     = (Inr ''# Doc <page>x</page>'', example_client,
        \<lparr>sent = [\<lparr>req_Method = ''GET'', req_URL = ''https://example.test/api/v1/blocks?id=7'',
                   req_Header = [(''Accept'', ''text/markdown'')], req_Body = None\<rparr>],
         remote = []\<rparr>) \<and>
   (Inr ''# Doc <page>x</page>'' :: go_error + string)
     = Inr (body_data (plain_body ''# Doc <page>x</page>''))"
proof -
  let ?url = "''https://example.test/api/v1/blocks?id=7''"
  let ?rq = "\<lparr>req_Method = ''GET'', req_URL = ?url,
               req_Header = [(''Accept'', ''text/markdown'')], req_Body = None\<rparr>"
  let ?w = "world_with [answer 200 ''# Doc <page>x</page>'']"
  let ?w' = "\<lparr>sent = [?rq], remote = ([] :: (go_error + response) list)\<rparr>"
  let ?resp = "\<lparr>StatusCode = 200, resp_Body = plain_body ''# Doc <page>x</page>''\<rparr>"
  have run: "FetchBlocksMarkdown example_lib ''7'' (- 1) example_client ?w
               = (Inr ''# Doc <page>x</page>'', example_client, ?w')"
    by code_simp
  have u: "?url = BaseURL example_client @ ''/blocks'' @
             query_suffix ((if ''7'' \<noteq> '''' then [''id='' @ QueryEscape ''7''] else []) @
                           (if (- 1::int) \<noteq> - 1 then [''maxDepth='' @ Itoa (- 1)] else []))"
    by code_simp
  have ok: "NewRequest_check example_lib ''GET'' ?url = None"
    by code_simp
  have rt: "RoundTrip example_lib (HTTPClient example_client) ?rq (remote ?w) = (Inr ?resp, [])"
    by (simp add: example_lib_def script_RoundTrip_def world_with_def answer_def)
  have st: "StatusCode ?resp = 200" and be: "body_err (resp_Body ?resp) = None"
    by (simp_all add: plain_body_def)
  have "(Inr ''# Doc <page>x</page>'' :: go_error + string) = Inr (body_data (resp_Body ?resp))"
    by (rule FetchBlocksMarkdown_request_and_result [OF run u refl ok, THEN conjunct2,
          THEN conjunct2, rule_format, OF rt st be])
  then show ?thesis
    using run by simp
qed

text \<open>
  C8. Take two Block bodies that differ only in one member: \<open>"width": "auto"\<close> in one,
  \<open>"width": 600\<close> in the other (the members before and after it decode, no later member
  is another \<open>width\<close>, and \<open>600\<close> is a number \<open>strconv.ParseFloat\<close> reads). Both bodies
  decode successfully; the first Block has the string \<open>auto\<close> in \<open>Width\<close>, the second the
  number, the other fields are the same, and the two decoded Blocks differ.
\<close>

theorem width_auto_and_number_decode_apart:
  assumes "Scan L body_auto = Inr (JObject (ms1 @ [(''width'', JString ''auto'')] @ ms2))"
    and "Scan L body_600 = Inr (JObject (ms1 @ [(''width'', JNumber ''600'')] @ ms2))"
    and "\<forall>(k, v)\<in>set ms2. \<not> fieldMatch k ''width''"
    and "decode_Block_members (ParseFloat L) ms1 zero_Block = Inr b1"
    and "decode_Block_members (ParseFloat L) ms2 b1 = Inr b2"
    and "ParseFloat L ''600'' = Some f"
  shows "Decode_Block L body_auto = Inr (set_Block_Width (AnyString ''auto'') b2) \<and>
         Decode_Block L body_600 = Inr (set_Block_Width (AnyFloat64 f) b2) \<and>
         Block_Width (set_Block_Width (AnyString ''auto'') b2) = AnyString ''auto'' \<and>
         Block_Width (set_Block_Width (AnyFloat64 f) b2) = AnyFloat64 f \<and>
         Decode_Block L body_auto \<noteq> Decode_Block L body_600"
proof -
  have members: "decode_Block_members (ParseFloat L) (ms1 @ [(''width'', v)] @ ms2) zero_Block
                   = (case decode_any (ParseFloat L) v of
                        Inl err \<Rightarrow> Inl err
                      | Inr x \<Rightarrow> Inr (set_Block_Width x b2))" for v
  proof (cases "decode_any (ParseFloat L) v")
    case (Inl err)
    then show ?thesis
      by (simp only: decode_Block_members_append assms(4) sum.case decode_Block_width_member
            assign_def)
  next
    case (Inr x)
    then show ?thesis
      by (simp only: decode_Block_members_append assms(4) sum.case decode_Block_width_member
            assign_def decode_Block_members_Width_commute [OF assms(3)] assms(5)
            map_sum.simps id_apply)
  qed
  have a: "Decode_Block L body_auto = Inr (set_Block_Width (AnyString ''auto'') b2)"
    by (simp only: Decode_Block_def assms(1) sum.case decode_Block.simps members
          decode_any.simps)
  have n: "Decode_Block L body_600 = Inr (set_Block_Width (AnyFloat64 f) b2)"
    by (simp only: Decode_Block_def assms(2) sum.case decode_Block.simps members
          decode_any.simps assms(6) option.case)
  have "set_Block_Width (AnyString ''auto'') b2 \<noteq> set_Block_Width (AnyFloat64 f) b2"
    by (simp add: set_Block_Width_def)
  with a n show ?thesis
    by (simp add: Block_Width_set)
qed

theorem width_auto_and_number_decode_apart_witness:
  "Decode_Block example_lib (plain_body image_auto_document)
     = Inr (set_Block_Width (AnyString ''auto'')
              (set_Block_Height 300 (set_Block_Type ''image'' (set_Block_ID ''9'' zero_Block)))) \<and>
   Decode_Block example_lib (plain_body image_600_document)
     = Inr (set_Block_Width (AnyFloat64 600)
              (set_Block_Height 300 (set_Block_Type ''image'' (set_Block_ID ''9'' zero_Block)))) \<and>
   Decode_Block example_lib (plain_body image_auto_document)
     \<noteq> Decode_Block example_lib (plain_body image_600_document)"
proof -
  let ?ms1 = "[(''id'', JString ''9''), (''type'', JString ''image'')]"
  let ?ms2 = "[(''height'', JNumber ''300'')]"
  let ?b1 = "set_Block_Type ''image'' (set_Block_ID ''9'' zero_Block)"
  have 1: "Scan example_lib (plain_body image_auto_document)
             = Inr (JObject (?ms1 @ [(''width'', JString ''auto'')] @ ?ms2))"
    by code_simp
  have 2: "Scan example_lib (plain_body image_600_document)
             = Inr (JObject (?ms1 @ [(''width'', JNumber ''600'')] @ ?ms2))"
    by code_simp
  have 3: "\<forall>(k, v)\<in>set ?ms2. \<not> fieldMatch k ''width''"
    by code_simp
  have 4: "decode_Block_members (ParseFloat example_lib) ?ms1 zero_Block = Inr ?b1"
    by code_simp
  have 5: "decode_Block_members (ParseFloat example_lib) ?ms2 ?b1 = Inr (set_Block_Height 300 ?b1)"
    by code_simp
  have 6: "ParseFloat example_lib ''600'' = Some 600"
    by (simp add: example_lib_def example_ParseFloat_def)
  show ?thesis
    using width_auto_and_number_decode_apart [OF 1 2 3 4 5 6] by blast
qed

text \<open>
  C9. For every client operation (FetchBlocks, FetchBlocksMarkdown, InsertBlocks,
  UpdateBlocks, DeleteBlocks, MoveBlocks, Search, GenerateUploadURL), every input and
  every outcome, success or error, the \<open>Client\<close> that the receiver points to is the same
  after the call as before it: its fields \<open>BaseURL\<close> and \<open>HTTPClient\<close> are unchanged. (The
  world is not: the call may have sent a request.)
\<close>

theorem client_state_unchanged:
  "fst (snd (FetchBlocks L id' maxDepth fetchMetadata c w)) = c \<and>
   fst (snd (FetchBlocksMarkdown L id' maxDepth c w)) = c \<and>
   fst (snd (InsertBlocks L insertReq c w)) = c \<and>
   fst (snd (UpdateBlocks L updateReq c w)) = c \<and>
   fst (snd (DeleteBlocks L blockIDs c w)) = c \<and>
   fst (snd (MoveBlocks L moveReq c w)) = c \<and>
   fst (snd (Search L pattern caseSensitive beforeCount afterCount c w)) = c \<and>
   fst (snd (GenerateUploadURL L fileName mimeType c w)) = c"
  by (simp only: FetchBlocks_client FetchBlocksMarkdown_client InsertBlocks_client
        UpdateBlocks_client DeleteBlocks_client MoveBlocks_client Search_client
        GenerateUploadURL_client simp_thms)

theorem client_state_unchanged_witness:
  "fst (snd (DeleteBlocks example_lib (Some [''a'', ''b'', ''zz'']) example_client
               (world_with [answer 207 two_ids_document]))) = example_client \<and>
   sent (snd (snd (DeleteBlocks example_lib (Some [''a'', ''b'', ''zz'']) example_client
               (world_with [answer 207 two_ids_document])))) \<noteq> sent (world_with [answer 207 two_ids_document])"
proof -
  have "sent (snd (snd (DeleteBlocks example_lib (Some [''a'', ''b'', ''zz'']) example_client
               (world_with [answer 207 two_ids_document])))) \<noteq> sent (world_with [answer 207 two_ids_document])"
    by code_simp
  then show ?thesis
    using client_state_unchanged [of example_lib "''''" 0 False example_client
        "world_with [answer 207 two_ids_document]" _ _ "Some [''a'', ''b'', ''zz'']"]
    by simp
qed

text \<open>
  C10. After a POST whose body decodes and a successful fetch of the root, the handler
  reads \<open>insertedBlocks[0]\<close> whatever InsertBlocks returned: when InsertBlocks succeeds
  with an empty list the handler panics with an index out of range, and it returns a
  response only when the list has a first element. A 200 answer to the insert whose
  \<open>items\<close> array is empty is such a success with an empty list.
\<close>

theorem handler_reads_first_block_unchecked:
  assumes "Request_Method r = ''POST''"
    and "Decode_QueryRequest L (Request_Body r) = Inr q"
    and "FetchBlocks L '''' 0 False (NewClient main_BaseURL) w = (Inr root', c1, w1)"
    and "insertReq =
           \<lparr>InsertRequest_Blocks = [], InsertRequest_Markdown = QueryRequest_Query q,
            InsertRequest_Position =
              \<lparr>Position_Position = ''end'', Position_PageID = Block_ID root',
               Position_SiblingID = ''''\<rparr>\<rparr>"
    and "InsertBlocks L insertReq c1 w1 = (res, c2, w2)"
  shows "(res = Inr [] \<longrightarrow>
            handleCraftHackathon L rw r w
              = (Panicked ''runtime error: index out of range [0] with length 0'', w2)) \<and>
         (\<forall>b bs. res = Inr (b # bs) \<longrightarrow>
            (\<exists>rw'. handleCraftHackathon L rw r w = (Returned rw', w2))) \<and>
         (\<forall>rq resp rem.
            sent w2 = sent w1 @ [rq] \<longrightarrow>
            RoundTrip L (HTTPClient c1) rq (remote w1) = (Inr resp, rem) \<longrightarrow>
            StatusCode resp = 200 \<longrightarrow>
            Scan L (resp_Body resp) = Inr (JObject [(''items'', JArray [])]) \<longrightarrow>
            res = Inr [] \<and>
            handleCraftHackathon L rw r w
              = (Panicked ''runtime error: index out of range [0] with length 0'', w2))"
proof -
  have empty: "handleCraftHackathon L rw r w
                 = (Panicked ''runtime error: index out of range [0] with length 0'', w2)"
    if "res = Inr []"
    using assms that by (simp add: handleCraftHackathon_def)
  have first: "\<exists>rw'. handleCraftHackathon L rw r w = (Returned rw', w2)"
    if "res = Inr (b # bs)" for b bs
    using assms that by (simp add: handleCraftHackathon_def Let_def split: sum.splits)
  have answered: "res = Inr []"
    if "sent w2 = sent w1 @ [rq]" "RoundTrip L (HTTPClient c1) rq (remote w1) = (Inr resp, rem)"
      "StatusCode resp = 200" "Scan L (resp_Body resp) = Inr (JObject [(''items'', JArray [])])"
    for rq resp rem
    using InsertBlocks_answered [OF assms(5) that(1,2)] that(3) envelope_of_no_blocks [OF that(4)]
    by simp
  show ?thesis
    using empty first answered by blast
qed

theorem handler_reads_first_block_unchecked_witness:
  "handleCraftHackathon example_lib new_ResponseWriter post_query
       (world_with [answer 200 root_document, answer 200 no_items_document])
     = (Panicked ''runtime error: index out of range [0] with length 0'',
        \<lparr>sent = [\<lparr>req_Method = ''GET'',
                   req_URL = ''https://connect.craft.do/links/3tXZdMX0EIe/api/v1/blocks?maxDepth=0'',
                   req_Header = [(''Accept'', ''application/json'')], req_Body = None\<rparr>,
                 \<lparr>req_Method = ''POST'',
                   req_URL = ''https://connect.craft.do/links/3tXZdMX0EIe/api/v1/blocks'',
                   req_Header = [(''Content-Type'', ''application/json'')],
                   req_Body = Some hello_InsertRequest_text\<rparr>],
         remote = []\<rparr>)"
proof -
  let ?get = "\<lparr>req_Method = ''GET'',
                req_URL = ''https://connect.craft.do/links/3tXZdMX0EIe/api/v1/blocks?maxDepth=0'',
                req_Header = [(''Accept'', ''application/json'')], req_Body = None\<rparr>"
  let ?post = "\<lparr>req_Method = ''POST'',
                 req_URL = ''https://connect.craft.do/links/3tXZdMX0EIe/api/v1/blocks'',
                 req_Header = [(''Content-Type'', ''application/json'')],
                 req_Body = Some hello_InsertRequest_text\<rparr>"
  let ?w = "world_with [answer 200 root_document, answer 200 no_items_document]"
  let ?w1 = "\<lparr>sent = [?get], remote = [answer 200 no_items_document]\<rparr>"
  let ?w2 = "\<lparr>sent = [?get, ?post], remote = ([] :: (go_error + response) list)\<rparr>"
  let ?c = "NewClient main_BaseURL"
  let ?root = "set_Block_Type ''page'' (set_Block_ID ''0'' zero_Block)"
  let ?q = "\<lparr>QueryRequest_Query = ''Hello''\<rparr>"
  let ?resp = "\<lparr>StatusCode = 200, resp_Body = plain_body no_items_document\<rparr>"
  have m: "Request_Method post_query = ''POST''"
    by (simp add: post_query_def)
  have d: "Decode_QueryRequest example_lib (Request_Body post_query) = Inr ?q"
    by code_simp
  have f: "FetchBlocks example_lib '''' 0 False ?c ?w = (Inr ?root, ?c, ?w1)"
    by code_simp
  have ireq: "hello_InsertRequest =
           \<lparr>InsertRequest_Blocks = [], InsertRequest_Markdown = QueryRequest_Query ?q,
            InsertRequest_Position =
              \<lparr>Position_Position = ''end'', Position_PageID = Block_ID ?root,
               Position_SiblingID = ''''\<rparr>\<rparr>"
    by code_simp
  have i: "InsertBlocks example_lib hello_InsertRequest ?c ?w1 = (Inr [], ?c, ?w2)"
    by code_simp
  have s: "sent ?w2 = sent ?w1 @ [?post]"
    by simp
  have rt: "RoundTrip example_lib (HTTPClient ?c) ?post (remote ?w1) = (Inr ?resp, [])"
    by (simp add: example_lib_def script_RoundTrip_def answer_def)
  have st: "StatusCode ?resp = 200"
    by simp
  have sc: "Scan example_lib (resp_Body ?resp) = Inr (JObject [(''items'', JArray [])])"
    by code_simp
  show ?thesis
    by (rule handler_reads_first_block_unchecked [OF m d f ireq i, THEN conjunct2,
          THEN conjunct2, rule_format, OF s rt st sc, THEN conjunct2])
qed


end
